theory Spec2Isabelle
  imports Main
begin

section \<open>Data model of \<open>src/index.ts\<close>\<close>

text \<open>
  The script is one \<open>async function main\<close> in three phases: a scan of the live chain
  (lines 37--89), a replay of every era boundary on a chopsticks fork (lines 95--150) and
  the merge of both reward tables into rows, a ledger and four files (lines 152--236).

  Every \<open>throw\<close> of the script, every property access on \<open>undefined\<close> and every
  rejected promise of a collaborator is a value of \<open>error\<close>; a computation that may fail
  has the type \<open>error + 'a\<close> with \<open>Inl\<close> for the failure. Nothing in the script catches
  an error before the final \<open>.catch\<close> of line 241, so the first \<open>Inl\<close> is the result of
  the run.
\<close>

datatype error =
    MissingNewEraEvent  \<comment> \<open>line 34: "Missing dappStaking::NewEra event"\<close>
  | DappShouldExist     \<comment> \<open>lines 71 and 138: "dapp should exists"\<close>
  | NegativeDelta       \<comment> \<open>line 159: "amount delta should not be negative"\<close>
  | TypeError           \<comment> \<open>line 156/157: a property of \<open>undefined\<close> is read\<close>
  | Rejected            \<comment> \<open>a collaborator (RPC client, chopsticks, polkadot util) failed\<close>

text \<open>One entry of \<open>system.events().toHuman()\<close>: the two fields line 28--29 read.\<close>

record event =
  ev_section :: string
  ev_method :: string

text \<open>Line 15: \<open>type Reward = { reward: bigint; tierId: number; beneficiary: string }\<close>.\<close>

record Reward =
  reward :: int
  tierId :: nat
  beneficiary :: string

text \<open>
  One value of \<open>integratedDApps.entries()\<close> after \<open>toJSON()\<close>: the fields lines 70 and 75
  read. \<open>rewardBeneficiary\<close> is \<open>null\<close> (here \<open>None\<close>) or a string.
\<close>

record dapp_info =
  dapp_num :: nat
  owner :: string
  rewardBeneficiary :: "string option"

text \<open>
  \<open>dAppTiers(era).toJSON()\<close>: \<open>dapps\<close> as \<open>Object.entries\<close> lists it, each key already
  passed through \<open>Number\<close>, and the array \<open>rewards\<close>, whose entries stay uninterpreted
  (\<open>'h\<close>) until \<open>hexToBigInt\<close> reads them.
\<close>

record 'h dapp_tiers =
  dapps :: "(nat \<times> nat) list"
  rewards :: "'h list"

text \<open>\<open>activeProtocolState()\<close>: the two fields lines 47, 48 and 82 read.\<close>

record protocol_state =
  nextEraStart :: nat
  era :: nat

text \<open>
  A \<open>HexString\<close> of polkadot-js, the result type of \<open>toHex()\<close> (lines 87 and 123): the
  characters \<open>0x\<close> followed by digits. Only the digits are stored.
\<close>

datatype hex = Hex string

fun hex_string :: "hex \<Rightarrow> string" where
  "hex_string (Hex ds) = ''0x'' @ ds"

text \<open>JavaScript's truth value of a string: every string but the empty one.\<close>

definition js_truthy :: "string \<Rightarrow> bool" where
  "js_truthy s = (s \<noteq> [])"

text \<open>
  A JavaScript \<open>Map\<close> (and the plain object of line 218, whose keys are addresses): the
  entries in insertion order, keys unique. \<open>map_set\<close> is \<open>Map.prototype.set\<close>: an existing
  key keeps its place and takes the new value, a new key goes last. \<open>get\<close> is \<open>map_of\<close>,
  with \<open>None\<close> for \<open>undefined\<close>.
\<close>

type_synonym ('k, 'v) jsmap = "('k \<times> 'v) list"

fun map_set :: "'k \<Rightarrow> 'v \<Rightarrow> ('k, 'v) jsmap \<Rightarrow> ('k, 'v) jsmap" where
  "map_set k v [] = [(k, v)]"
| "map_set k v ((k', v') # m) =
     (if k = k' then (k, v) # m else (k', v') # map_set k v m)"

section \<open>The era-advance-event check (lines 25--35)\<close>

fun ensureHasEvent :: "event list \<Rightarrow> error + unit" where
  "ensureHasEvent [] = Inl MissingNewEraEvent"
| "ensureHasEvent (ev # events) =
     (if ev_section ev = ''dappStaking'' \<and> ev_method ev = ''NewEra''
      then Inr ()
      else ensureHasEvent events)"

section \<open>Reward extraction (lines 59--79 and 126--146)\<close>

text \<open>\<open>rewards[tierId]\<close>: \<open>undefined\<close> (\<open>None\<close>) beyond the end of the array.\<close>

definition js_index :: "'a list \<Rightarrow> nat \<Rightarrow> 'a option" where
  "js_index xs i = (if i < length xs then Some (xs ! i) else None)"

text \<open>
  \<open>dapp.rewardBeneficiary || dapp.owner\<close> (lines 75 and 142): the left operand when it is
  truthy, the right one when it is \<open>null\<close> or the empty string.
\<close>

definition beneficiary_of :: "dapp_info \<Rightarrow> string" where
  "beneficiary_of dapp =
     (case rewardBeneficiary dapp of
        None \<Rightarrow> owner dapp
      | Some b \<Rightarrow> if js_truthy b then b else owner dapp)"

text \<open>
  The loop of lines 68--77 (and 135--144, the same text). \<open>hexToBigInt\<close> belongs to
  \<open>@polkadot/util\<close> and is a parameter: it reads an entry of \<open>rewards\<close> or \<open>undefined\<close>
  and returns a bigint or throws.
\<close>

fun dappsReward_loop ::
  "('h option \<Rightarrow> error + int) \<Rightarrow> 'h list \<Rightarrow> dapp_info list \<Rightarrow> (nat \<times> nat) list \<Rightarrow>
   (nat, Reward) jsmap \<Rightarrow> error + (nat, Reward) jsmap" where
  "dappsReward_loop hexToBigInt rws integrated [] dappsReward = Inr dappsReward"
| "dappsReward_loop hexToBigInt rws integrated ((dappId, tier) # rest) dappsReward =
     (case hexToBigInt (js_index rws tier) of
        Inl e \<Rightarrow> Inl e
      | Inr rw \<Rightarrow>
          (case find (\<lambda>x. dapp_num x = dappId) integrated of
             None \<Rightarrow> Inl DappShouldExist
           | Some dapp \<Rightarrow>
               dappsReward_loop hexToBigInt rws integrated rest
                 (map_set dappId
                    \<lparr>reward = rw, tierId = tier, beneficiary = beneficiary_of dapp\<rparr>
                    dappsReward)))"

definition extractRewards ::
  "('h option \<Rightarrow> error + int) \<Rightarrow> 'h dapp_tiers \<Rightarrow> dapp_info list \<Rightarrow>
   error + (nat, Reward) jsmap" where
  "extractRewards hexToBigInt tiers integrated =
     dappsReward_loop hexToBigInt (rewards tiers) integrated (dapps tiers) []"

section \<open>The Era Scanner (lines 37--87)\<close>

text \<open>
  The chain reader: every query of the script at the block with a given number
  (\<open>api.at(await blockHash(n))\<close> followed by the query; a failure of either is the
  failure of the query).
\<close>

record 'h chain_api =
  activeProtocolState :: "nat \<Rightarrow> error + protocol_state"
  system_events :: "nat \<Rightarrow> error + event list"
  dAppTiers :: "nat \<Rightarrow> nat \<Rightarrow> error + 'h dapp_tiers"
  integratedDApps :: "nat \<Rightarrow> error + dapp_info list"
  substrate_code :: "nat \<Rightarrow> error + hex"

definition START_BLOCK :: nat where
  "START_BLOCK = 6216237"

definition END_BLOCK :: nat where
  "END_BLOCK = 6285334"

text \<open>
  The body of the \<open>do\<close> loop, lines 47--81: from the protocol state and the two maps to
  the refreshed protocol state and the extended maps.
\<close>

definition scan_body ::
  "('h option \<Rightarrow> error + int) \<Rightarrow> 'h chain_api \<Rightarrow> protocol_state \<Rightarrow>
   (nat, nat) jsmap \<Rightarrow> (nat, (nat, Reward) jsmap) jsmap \<Rightarrow>
   error + (protocol_state \<times> (nat, nat) jsmap \<times> (nat, (nat, Reward) jsmap) jsmap)" where
  "scan_body hexToBigInt api protocolState blocks actualTiers =
     (let blockNo = nextEraStart protocolState;
          e = era protocolState;
          blocks' = map_set e blockNo blocks
      in case system_events api blockNo of
           Inl err \<Rightarrow> Inl err
         | Inr events \<Rightarrow>
        (case ensureHasEvent events of
           Inl err \<Rightarrow> Inl err
         | Inr _ \<Rightarrow>
        (case dAppTiers api blockNo e of
           Inl err \<Rightarrow> Inl err
         | Inr tiers \<Rightarrow>
        (case integratedDApps api blockNo of
           Inl err \<Rightarrow> Inl err
         | Inr integrated \<Rightarrow>
        (case extractRewards hexToBigInt tiers integrated of
           Inl err \<Rightarrow> Inl err
         | Inr dappsReward \<Rightarrow>
        (case activeProtocolState api blockNo of
           Inl err \<Rightarrow> Inl err
         | Inr protocolState' \<Rightarrow>
             Inr (protocolState', blocks', map_set e dappsReward actualTiers)))))))"

text \<open>
  The \<open>do ... while\<close> of lines 46--82. The loop has no bound of its own, so the result
  is an option: \<open>None\<close> is a scan that never returns. \<open>endBlock\<close> is \<open>END_BLOCK\<close> in \<open>main\<close>.
\<close>

partial_function (option) scan_loop ::
  "('h option \<Rightarrow> error + int) \<Rightarrow> 'h chain_api \<Rightarrow> nat \<Rightarrow> protocol_state \<Rightarrow>
   (nat, nat) jsmap \<Rightarrow> (nat, (nat, Reward) jsmap) jsmap \<Rightarrow>
   (error + ((nat, nat) jsmap \<times> (nat, (nat, Reward) jsmap) jsmap)) option" where
  "scan_loop hexToBigInt api endBlock protocolState blocks actualTiers =
     (case scan_body hexToBigInt api protocolState blocks actualTiers of
        Inl err \<Rightarrow> Some (Inl err)
      | Inr (protocolState', blocks', actualTiers') \<Rightarrow>
          if nextEraStart protocolState' < endBlock
          then scan_loop hexToBigInt api endBlock protocolState' blocks' actualTiers'
          else Some (Inr (blocks', actualTiers')))"

text \<open>The unfolding equation of the loop is its code equation.\<close>

declare scan_loop.simps [code]

text \<open>Lines 37--82: the first protocol state is read at the start block.\<close>

definition scan ::
  "('h option \<Rightarrow> error + int) \<Rightarrow> 'h chain_api \<Rightarrow> nat \<Rightarrow> nat \<Rightarrow>
   (error + ((nat, nat) jsmap \<times> (nat, (nat, Reward) jsmap) jsmap)) option" where
  "scan hexToBigInt api startBlock endBlock =
     (case activeProtocolState api startBlock of
        Inl err \<Rightarrow> Some (Inl err)
      | Inr protocolState \<Rightarrow> scan_loop hexToBigInt api endBlock protocolState [] [])"

section \<open>The Replay Reconciler (lines 95--150)\<close>

text \<open>
  The chopsticks backend. A context \<open>'ctx\<close> is the fork \<open>setupContext\<close> returns; the
  script mutates it in place, the model passes it on. Each awaited call may reject.
\<close>

record ('h, 'ctx) chopsticks =
  setupContext :: "int \<Rightarrow> error + 'ctx"
  setWasm :: "'ctx \<Rightarrow> hex \<Rightarrow> 'ctx"
  overrideStorage :: "'ctx \<Rightarrow> hex \<Rightarrow> error + 'ctx"
  newBlock :: "'ctx \<Rightarrow> error + 'ctx"
  ctx_events :: "'ctx \<Rightarrow> error + event list"
  ctx_tierConfig :: "'ctx \<Rightarrow> error + hex"
  ctx_dAppTiers :: "'ctx \<Rightarrow> nat \<Rightarrow> error + 'h dapp_tiers"
  ctx_integratedDApps :: "'ctx \<Rightarrow> error + dapp_info list"
  teardown :: "'ctx \<Rightarrow> error + unit"

text \<open>
  What one iteration did to its fork, in order; a call is logged when it has returned.
  \<open>ReadTierConfig\<close> logs the value line 123 read.
\<close>

datatype fork_op =
    SetupContext int
  | SetWasm hex
  | OverrideStorage hex
  | NewBlock
  | ReadTierConfig hex
  | Teardown

text \<open>Lines 112--115: \<open>if (tierConfig) await overrideStorage(...)\<close>.\<close>

definition override_step ::
  "('h, 'ctx) chopsticks \<Rightarrow> 'ctx \<Rightarrow> hex option \<Rightarrow> fork_op list \<times> (error + 'ctx)" where
  "override_step cs ctx tierConfig =
     (case tierConfig of
        None \<Rightarrow> ([], Inr ctx)
      | Some cfg \<Rightarrow>
          if js_truthy (hex_string cfg)
          then (case overrideStorage cs ctx cfg of
                  Inl err \<Rightarrow> ([], Inl err)
                | Inr ctx' \<Rightarrow> ([OverrideStorage cfg], Inr ctx'))
          else ([], Inr ctx))"

text \<open>Lines 120--146: the event check, the read of \<open>tierConfig\<close>, the reward extraction.\<close>

definition read_fork ::
  "('h, 'ctx) chopsticks \<Rightarrow> ('h option \<Rightarrow> error + int) \<Rightarrow> nat \<Rightarrow> 'ctx \<Rightarrow>
   fork_op list \<times> (error + (hex \<times> (nat, Reward) jsmap))" where
  "read_fork cs hexToBigInt e ctx =
     (case ctx_events cs ctx of
        Inl err \<Rightarrow> ([], Inl err)
      | Inr events \<Rightarrow>
     (case ensureHasEvent events of
        Inl err \<Rightarrow> ([], Inl err)
      | Inr _ \<Rightarrow>
     (case ctx_tierConfig cs ctx of
        Inl err \<Rightarrow> ([], Inl err)
      | Inr cfg \<Rightarrow>
     (case ctx_dAppTiers cs ctx e of
        Inl err \<Rightarrow> ([ReadTierConfig cfg], Inl err)
      | Inr tiers \<Rightarrow>
     (case ctx_integratedDApps cs ctx of
        Inl err \<Rightarrow> ([ReadTierConfig cfg], Inl err)
      | Inr integrated \<Rightarrow>
     (case extractRewards hexToBigInt tiers integrated of
        Inl err \<Rightarrow> ([ReadTierConfig cfg], Inl err)
      | Inr dappsReward \<Rightarrow> ([ReadTierConfig cfg], Inr (cfg, dappsReward))))))))"

text \<open>
  One pass of the \<open>for\<close> loop, lines 100--149. The wait of line 147 changes nothing the
  model holds. There is no \<open>try\<close> around the body: an error leaves at once.
\<close>

definition replay_iter ::
  "('h, 'ctx) chopsticks \<Rightarrow> ('h option \<Rightarrow> error + int) \<Rightarrow> hex \<Rightarrow> hex option \<Rightarrow>
   nat \<Rightarrow> nat \<Rightarrow> fork_op list \<times> (error + (hex \<times> (nat, Reward) jsmap))" where
  "replay_iter cs hexToBigInt runtime tierConfig e block =
     (case setupContext cs (int block - 1) of
        Inl err \<Rightarrow> ([], Inl err)
      | Inr ctx0 \<Rightarrow>
          (let ctx1 = setWasm cs ctx0 runtime;
               ops1 = [SetupContext (int block - 1), SetWasm runtime]
           in case override_step cs ctx1 tierConfig of
                (ops2, Inl err) \<Rightarrow> (ops1 @ ops2, Inl err)
              | (ops2, Inr ctx2) \<Rightarrow>
             (case newBlock cs ctx2 of
                Inl err \<Rightarrow> (ops1 @ ops2, Inl err)
              | Inr ctx3 \<Rightarrow>
             (case read_fork cs hexToBigInt e ctx3 of
                (ops3, Inl err) \<Rightarrow> (ops1 @ ops2 @ [NewBlock] @ ops3, Inl err)
              | (ops3, Inr res) \<Rightarrow>
             (case teardown cs ctx3 of
                Inl err \<Rightarrow> (ops1 @ ops2 @ [NewBlock] @ ops3, Inl err)
              | Inr _ \<Rightarrow> (ops1 @ ops2 @ [NewBlock] @ ops3 @ [Teardown], Inr res))))))"

text \<open>
  The \<open>for\<close> loop over the entries of \<open>blocks\<close>, lines 99--150, with the variable
  \<open>tierConfig\<close> of line 95 carried along. The first component is the log, one list per
  iteration that started.
\<close>

fun replay_loop ::
  "('h, 'ctx) chopsticks \<Rightarrow> ('h option \<Rightarrow> error + int) \<Rightarrow> hex \<Rightarrow> hex option \<Rightarrow>
   (nat \<times> nat) list \<Rightarrow> (nat, (nat, Reward) jsmap) jsmap \<Rightarrow>
   fork_op list list \<times> (error + (nat, (nat, Reward) jsmap) jsmap)" where
  "replay_loop cs hexToBigInt runtime tierConfig [] expectedTiers = ([], Inr expectedTiers)"
| "replay_loop cs hexToBigInt runtime tierConfig ((e, block) # rest) expectedTiers =
     (case replay_iter cs hexToBigInt runtime tierConfig e block of
        (ops, Inl err) \<Rightarrow> ([ops], Inl err)
      | (ops, Inr (cfg, dappsReward)) \<Rightarrow>
          (case replay_loop cs hexToBigInt runtime (Some cfg) rest
                  (map_set e dappsReward expectedTiers) of
             (trace, res) \<Rightarrow> (ops # trace, res)))"

definition replay ::
  "('h, 'ctx) chopsticks \<Rightarrow> ('h option \<Rightarrow> error + int) \<Rightarrow> hex \<Rightarrow> (nat, nat) jsmap \<Rightarrow>
   fork_op list list \<times> (error + (nat, (nat, Reward) jsmap) jsmap)" where
  "replay cs hexToBigInt runtime blocks = replay_loop cs hexToBigInt runtime None blocks []"

text \<open>Reading the log: the override an iteration applied, the value it read back.\<close>

fun override_of :: "fork_op list \<Rightarrow> hex option" where
  "override_of [] = None"
| "override_of (OverrideStorage cfg # ops) = Some cfg"
| "override_of (_ # ops) = override_of ops"

fun readback_of :: "fork_op list \<Rightarrow> hex option" where
  "readback_of [] = None"
| "readback_of (ReadTierConfig cfg # ops) = Some cfg"
| "readback_of (_ # ops) = readback_of ops"

text \<open>
  The fork discipline over the flat log: from \<open>open\<close> (is a fork held?) to the same
  flag at the end, or \<open>None\<close> when a fork is acquired while one is held, or a teardown
  or any other call happens while none is.
\<close>

fun fork_held :: "bool \<Rightarrow> fork_op list \<Rightarrow> bool option" where
  "fork_held held [] = Some held"
| "fork_held held (SetupContext b # ops) = (if held then None else fork_held True ops)"
| "fork_held held (Teardown # ops) = (if held then fork_held False ops else None)"
| "fork_held held (_ # ops) = (if held then fork_held held ops else None)"

section \<open>The Delta Aggregator (lines 152--236)\<close>

text \<open>One element of \<open>finalResults\<close>, lines 161--170.\<close>

record row =
  row_era :: nat
  dapp_id :: nat
  row_beneficiary :: string
  expected_tier :: nat
  actual_tier :: nat
  expected_reward :: int
  actual_reward :: int
  delta :: int

text \<open>
  The inner loop, lines 155--171. \<open>actualOfEra\<close> is \<open>actualTiers.get(era)\<close>; the \<open>!\<close> of
  line 156 is erased by the compiler, so \<open>undefined.get(...)\<close> and \<open>undefined.reward\<close>
  throw a \<open>TypeError\<close>.
\<close>

fun merge_dapps ::
  "nat \<Rightarrow> (nat, Reward) jsmap option \<Rightarrow> (nat \<times> Reward) list \<Rightarrow> row list \<Rightarrow>
   error + row list" where
  "merge_dapps e actualOfEra [] finalResults = Inr finalResults"
| "merge_dapps e actualOfEra ((d, expected) # rest) finalResults =
     (case actualOfEra of
        None \<Rightarrow> Inl TypeError
      | Some m \<Rightarrow>
          (case map_of m d of
             None \<Rightarrow> Inl TypeError
           | Some actual \<Rightarrow>
               if reward expected - reward actual < 0 then Inl NegativeDelta
               else merge_dapps e actualOfEra rest
                      (finalResults @
                       [\<lparr>row_era = e, dapp_id = d, row_beneficiary = beneficiary expected,
                         expected_tier = tierId expected, actual_tier = tierId actual,
                         expected_reward = reward expected, actual_reward = reward actual,
                         delta = reward expected - reward actual\<rparr>])))"

text \<open>The outer loop, lines 154--172.\<close>

fun merge_eras ::
  "(nat, (nat, Reward) jsmap) jsmap \<Rightarrow> (nat \<times> (nat, Reward) jsmap) list \<Rightarrow> row list \<Rightarrow>
   error + row list" where
  "merge_eras actualTiers [] finalResults = Inr finalResults"
| "merge_eras actualTiers ((e, ds) # rest) finalResults =
     (case merge_dapps e (map_of actualTiers e) ds finalResults of
        Inl err \<Rightarrow> Inl err
      | Inr finalResults' \<Rightarrow> merge_eras actualTiers rest finalResults')"

text \<open>
  Lines 212--218. \<open>acc[x.beneficiary] || 0n\<close> is \<open>0n\<close> for a missing key and for a stored
  \<open>0n\<close>.
\<close>

definition reimburse_step :: "(string, int) jsmap \<Rightarrow> row \<Rightarrow> (string, int) jsmap" where
  "reimburse_step acc x =
     (let amount = (case map_of acc (row_beneficiary x) of
                      None \<Rightarrow> 0
                    | Some a \<Rightarrow> if a = 0 then 0 else a)
      in map_set (row_beneficiary x) (amount + delta x) acc)"

definition reimburse :: "row list \<Rightarrow> (string, int) jsmap" where
  "reimburse finalResults =
     foldl reimburse_step [] (filter (\<lambda>x. delta x \<noteq> 0) finalResults)"

text \<open>Division of bigints truncates towards zero (line 233--234).\<close>

definition bigint_div :: "int \<Rightarrow> int \<Rightarrow> int" where
  "bigint_div a b = sgn a * sgn b * (\<bar>a\<bar> div \<bar>b\<bar>)"

definition ledger_sum :: "(string, int) jsmap \<Rightarrow> int" where
  "ledger_sum ledger = foldl (\<lambda>acc amount. acc + amount) 0 (map snd ledger)"

definition total_astr :: "(string, int) jsmap \<Rightarrow> int" where
  "total_astr ledger = bigint_div (ledger_sum ledger) (10 ^ 18)"

text \<open>
  A call of \<open>Bun.write\<close>: the path and the data that is serialised into the file. The
  serialisation is not modelled, and a write is taken to succeed.
\<close>

datatype file_write =
    WriteRows string "row list"
  | WriteLedger string "(string, int) jsmap"

text \<open>Lines 152--236: the writes done, and the rows, the ledger and the printed total.\<close>

definition aggregate ::
  "(nat, (nat, Reward) jsmap) jsmap \<Rightarrow> (nat, (nat, Reward) jsmap) jsmap \<Rightarrow>
   file_write list \<times> (error + (row list \<times> (string, int) jsmap \<times> int))" where
  "aggregate expectedTiers actualTiers =
     (case merge_eras actualTiers expectedTiers [] of
        Inl err \<Rightarrow> ([], Inl err)
      | Inr finalResults \<Rightarrow>
          (let ledger = reimburse finalResults
           in ([WriteRows ''./raw-result.json'' finalResults,
                WriteRows ''./raw-result.csv'' finalResults,
                WriteLedger ''./reimburse.json'' ledger,
                WriteLedger ''./reimburse.csv'' ledger],
               Inr (finalResults, ledger, total_astr ledger))))"

section \<open>The whole run\<close>

record run =
  forks :: "fork_op list list"
  written :: "file_write list"
  outcome :: "error + int"

text \<open>
  \<open>main\<close>, lines 17--237, with the two range constants as parameters: the scan, the
  runtime read at the end block (lines 85--87), the replay and the aggregation. The
  \<open>api.disconnect()\<close> of line 89 has no part in the result.
\<close>

definition main_with ::
  "nat \<Rightarrow> nat \<Rightarrow> ('h option \<Rightarrow> error + int) \<Rightarrow> 'h chain_api \<Rightarrow> ('h, 'ctx) chopsticks \<Rightarrow>
   run option" where
  "main_with startBlock endBlock hexToBigInt api cs =
     (case scan hexToBigInt api startBlock endBlock of
        None \<Rightarrow> None
      | Some (Inl err) \<Rightarrow> Some \<lparr>forks = [], written = [], outcome = Inl err\<rparr>
      | Some (Inr (blocks, actualTiers)) \<Rightarrow>
     (case substrate_code api endBlock of
        Inl err \<Rightarrow> Some \<lparr>forks = [], written = [], outcome = Inl err\<rparr>
      | Inr runtime \<Rightarrow>
     (case replay cs hexToBigInt runtime blocks of
        (trace, Inl err) \<Rightarrow> Some \<lparr>forks = trace, written = [], outcome = Inl err\<rparr>
      | (trace, Inr expectedTiers) \<Rightarrow>
     (case aggregate expectedTiers actualTiers of
        (ws, Inl err) \<Rightarrow> Some \<lparr>forks = trace, written = ws, outcome = Inl err\<rparr>
      | (ws, Inr (finalResults, ledger, printed)) \<Rightarrow>
          Some \<lparr>forks = trace, written = ws, outcome = Inr printed\<rparr>))))"

definition main ::
  "('h option \<Rightarrow> error + int) \<Rightarrow> 'h chain_api \<Rightarrow> ('h, 'ctx) chopsticks \<Rightarrow> run option" where
  "main = main_with START_BLOCK END_BLOCK"

section \<open>Auxiliary notions for the statements\<close>

text \<open>
  The actual record line 156 finds for an era and a recipient, and the test an expected
  entry has to pass for the merge to go on: an actual record exists and is not larger.
\<close>

definition actual_of :: "(nat, (nat, Reward) jsmap) jsmap \<Rightarrow> nat \<Rightarrow> nat \<Rightarrow> Reward option" where
  "actual_of actualTiers e d =
     (case map_of actualTiers e of None \<Rightarrow> None | Some m \<Rightarrow> map_of m d)"

definition pair_ok :: "(nat, (nat, Reward) jsmap) jsmap \<Rightarrow> nat \<Rightarrow> nat \<times> Reward \<Rightarrow> bool" where
  "pair_ok actualTiers e p =
     (case actual_of actualTiers e (fst p) of
        None \<Rightarrow> False
      | Some actual \<Rightarrow> reward actual \<le> reward (snd p))"

text \<open>
  The state in which the \<open>do\<close> loop starts its pass number \<open>n\<close> (counted from 0):
  \<open>None\<close> when an earlier pass has thrown or the loop condition has ended the loop
  before. It runs the body and the condition of \<open>scan_loop\<close> a fixed number of times.
\<close>

fun scan_state ::
  "nat \<Rightarrow> ('h option \<Rightarrow> error + int) \<Rightarrow> 'h chain_api \<Rightarrow> nat \<Rightarrow> protocol_state \<Rightarrow>
   (nat, nat) jsmap \<Rightarrow> (nat, (nat, Reward) jsmap) jsmap \<Rightarrow>
   (protocol_state \<times> (nat, nat) jsmap \<times> (nat, (nat, Reward) jsmap) jsmap) option" where
  "scan_state 0 hexToBigInt api endBlock protocolState blocks actualTiers =
     Some (protocolState, blocks, actualTiers)"
| "scan_state (Suc n) hexToBigInt api endBlock protocolState blocks actualTiers =
     (case scan_body hexToBigInt api protocolState blocks actualTiers of
        Inl err \<Rightarrow> None
      | Inr (protocolState', blocks', actualTiers') \<Rightarrow>
          if nextEraStart protocolState' < endBlock
          then scan_state n hexToBigInt api endBlock protocolState' blocks' actualTiers'
          else None)"

text \<open>The override calls an iteration logs for a given carried \<open>tierConfig\<close>.\<close>

definition override_ops :: "hex option \<Rightarrow> fork_op list" where
  "override_ops tierConfig = (case tierConfig of None \<Rightarrow> [] | Some cfg \<Rightarrow> [OverrideStorage cfg])"

section \<open>Fixtures\<close>

text \<open>
  A chain of three eras with boundaries at the blocks 10, 20 and 30, three registered
  dApps, and a fork backend that recomputes the rewards; the rewards are those of the
  end-to-end scenario of the specification. \<open>hexToBigInt\<close> reads numbers that are
  already decoded and gives \<open>0n\<close> for \<open>undefined\<close>.
\<close>

definition fx_hexToBigInt :: "int option \<Rightarrow> error + int" where
  "fx_hexToBigInt v = (case v of None \<Rightarrow> Inr 0 | Some n \<Rightarrow> Inr n)"

definition fx_newEra :: event where
  "fx_newEra = \<lparr>ev_section = ''dappStaking'', ev_method = ''NewEra''\<rparr>"

definition fx_integrated :: "dapp_info list" where
  "fx_integrated =
     [\<lparr>dapp_num = 1, owner = ''ownerA'', rewardBeneficiary = Some ''A''\<rparr>,
      \<lparr>dapp_num = 2, owner = ''B'', rewardBeneficiary = None\<rparr>,
      \<lparr>dapp_num = 3, owner = ''C'', rewardBeneficiary = None\<rparr>]"

definition fx_tiers :: "int \<Rightarrow> int \<Rightarrow> int \<Rightarrow> nat \<Rightarrow> int dapp_tiers" where
  "fx_tiers a b c e =
     (if e = 1 then \<lparr>dapps = [(1, 0), (2, 1)], rewards = [a, 200]\<rparr>
      else if e = 2 then \<lparr>dapps = [(1, 0)], rewards = [b]\<rparr>
      else \<lparr>dapps = [(3, 0)], rewards = [c]\<rparr>)"

definition fx_other :: event where
  "fx_other = \<lparr>ev_section = ''system'', ev_method = ''ExtrinsicSuccess''\<rparr>"

definition fx_api :: "int chain_api" where
  "fx_api =
     \<lparr>activeProtocolState =
        (\<lambda>b. Inr \<lparr>nextEraStart = 10 * (b div 10 + 1), era = b div 10 + 1\<rparr>),
      system_events = (\<lambda>b. Inr [fx_other, fx_newEra]),
      dAppTiers = (\<lambda>b e. Inr (fx_tiers 100 50 10 e)),
      integratedDApps = (\<lambda>b. Inr fx_integrated),
      substrate_code = (\<lambda>b. Inr (Hex ''c0de''))\<rparr>"

text \<open>
  Variants of the chain: one that reports the boundary 5 at every block and has empty
  tier tables, one whose next era start lies seven million blocks ahead, and (below) one
  whose blocks carry no \<open>NewEra\<close> event.
\<close>

definition fx_stuck_api :: "int chain_api" where
  "fx_stuck_api =
     fx_api\<lparr>activeProtocolState := (\<lambda>b. Inr \<lparr>nextEraStart = 5, era = 1\<rparr>),
            dAppTiers := (\<lambda>b e. Inr \<lparr>dapps = [], rewards = []\<rparr>)\<rparr>"

text \<open>
  A chain that answers at block 5 only, where it reports the boundary 5 again; every
  other block is rejected.
\<close>

definition fx_stuck5_api :: "int chain_api" where
  "fx_stuck5_api =
     \<lparr>activeProtocolState =
        (\<lambda>b. if b = 5 then Inr \<lparr>nextEraStart = 5, era = 1\<rparr> else Inl Rejected),
      system_events = (\<lambda>b. if b = 5 then Inr [fx_newEra] else Inl Rejected),
      dAppTiers = (\<lambda>b e. if b = 5 then Inr \<lparr>dapps = [], rewards = []\<rparr> else Inl Rejected),
      integratedDApps = (\<lambda>b. if b = 5 then Inr [] else Inl Rejected),
      substrate_code = (\<lambda>b. Inl Rejected)\<rparr>"


text \<open>
  The fork backend: a context is the block number of the fork and the \<open>tierConfig\<close> that
  was written into it. Its variants recompute a smaller reward for era 2, or produce
  blocks without the \<open>NewEra\<close> event.
\<close>

definition fx_cs :: "(int, int \<times> hex option) chopsticks" where
  "fx_cs =
     \<lparr>setupContext = (\<lambda>b. Inr (b, None)),
      setWasm = (\<lambda>ctx rt. ctx),
      overrideStorage = (\<lambda>ctx cfg. Inr (fst ctx, Some cfg)),
      newBlock = (\<lambda>ctx. Inr (fst ctx + 1, snd ctx)),
      ctx_events = (\<lambda>ctx. Inr [fx_newEra]),
      ctx_tierConfig =
        (\<lambda>ctx. Inr (if fst ctx = 10 then Hex ''0a'' else if fst ctx = 20 then Hex ''14''
                     else Hex ''1e'')),
      ctx_dAppTiers = (\<lambda>ctx e. Inr (fx_tiers 150 50 40 e)),
      ctx_integratedDApps = (\<lambda>ctx. Inr fx_integrated),
      teardown = (\<lambda>ctx. Inr ())\<rparr>"

definition fx_quiet_api :: "int chain_api" where
  "fx_quiet_api = fx_api\<lparr>system_events := (\<lambda>b. Inr [fx_other])\<rparr>"

definition fx_low_cs :: "(int, int \<times> hex option) chopsticks" where
  "fx_low_cs = fx_cs\<lparr>ctx_dAppTiers := (\<lambda>ctx e. Inr (fx_tiers 150 40 40 e))\<rparr>"

definition fx_silent_cs :: "(int, int \<times> hex option) chopsticks" where
  "fx_silent_cs = fx_cs\<lparr>ctx_events := (\<lambda>ctx. Inr [fx_other])\<rparr>"

text \<open>
  The reward tables of the scenario, a variant whose expected reward of era 2 is below
  the actual one, a variant with a recipient that only the actual table holds, and the
  rows, writes and fork log the scenario yields.
\<close>

definition fx_actual :: "(nat, (nat, Reward) jsmap) jsmap" where
  "fx_actual =
     [(1, [(1, \<lparr>reward = 100, tierId = 0, beneficiary = ''A''\<rparr>),
           (2, \<lparr>reward = 200, tierId = 1, beneficiary = ''B''\<rparr>)]),
      (2, [(1, \<lparr>reward = 50, tierId = 0, beneficiary = ''A''\<rparr>)]),
      (3, [(3, \<lparr>reward = 10, tierId = 0, beneficiary = ''C''\<rparr>)])]"

definition fx_expected :: "(nat, (nat, Reward) jsmap) jsmap" where
  "fx_expected =
     [(1, [(1, \<lparr>reward = 150, tierId = 0, beneficiary = ''A''\<rparr>),
           (2, \<lparr>reward = 200, tierId = 1, beneficiary = ''B''\<rparr>)]),
      (2, [(1, \<lparr>reward = 50, tierId = 0, beneficiary = ''A''\<rparr>)]),
      (3, [(3, \<lparr>reward = 40, tierId = 0, beneficiary = ''C''\<rparr>)])]"

definition fx_expected_low :: "(nat, (nat, Reward) jsmap) jsmap" where
  "fx_expected_low =
     [(1, [(1, \<lparr>reward = 150, tierId = 0, beneficiary = ''A''\<rparr>),
           (2, \<lparr>reward = 200, tierId = 1, beneficiary = ''B''\<rparr>)]),
      (2, [(1, \<lparr>reward = 40, tierId = 0, beneficiary = ''A''\<rparr>)]),
      (3, [(3, \<lparr>reward = 40, tierId = 0, beneficiary = ''C''\<rparr>)])]"

definition fx_actual_extra :: "(nat, (nat, Reward) jsmap) jsmap" where
  "fx_actual_extra =
     [(1, [(1, \<lparr>reward = 100, tierId = 0, beneficiary = ''A''\<rparr>),
           (2, \<lparr>reward = 200, tierId = 1, beneficiary = ''B''\<rparr>),
           (9, \<lparr>reward = 70, tierId = 2, beneficiary = ''D''\<rparr>)]),
      (2, [(1, \<lparr>reward = 50, tierId = 0, beneficiary = ''A''\<rparr>)]),
      (3, [(3, \<lparr>reward = 10, tierId = 0, beneficiary = ''C''\<rparr>)])]"

definition fx_blocks :: "(nat, nat) jsmap" where
  "fx_blocks = [(1, 10), (2, 20), (3, 30)]"

definition fx_rows :: "row list" where
  "fx_rows =
     [\<lparr>row_era = 1, dapp_id = 1, row_beneficiary = ''A'', expected_tier = 0,
       actual_tier = 0, expected_reward = 150, actual_reward = 100, delta = 50\<rparr>,
      \<lparr>row_era = 1, dapp_id = 2, row_beneficiary = ''B'', expected_tier = 1,
       actual_tier = 1, expected_reward = 200, actual_reward = 200, delta = 0\<rparr>,
      \<lparr>row_era = 2, dapp_id = 1, row_beneficiary = ''A'', expected_tier = 0,
       actual_tier = 0, expected_reward = 50, actual_reward = 50, delta = 0\<rparr>,
      \<lparr>row_era = 3, dapp_id = 3, row_beneficiary = ''C'', expected_tier = 0,
       actual_tier = 0, expected_reward = 40, actual_reward = 10, delta = 30\<rparr>]"

definition fx_writes :: "file_write list" where
  "fx_writes =
     [WriteRows ''./raw-result.json'' fx_rows, WriteRows ''./raw-result.csv'' fx_rows,
      WriteLedger ''./reimburse.json'' [(''A'', 50), (''C'', 30)],
      WriteLedger ''./reimburse.csv'' [(''A'', 50), (''C'', 30)]]"

definition fx_trace :: "fork_op list list" where
  "fx_trace =
     [[SetupContext 9, SetWasm (Hex ''c0de''), NewBlock, ReadTierConfig (Hex ''0a''), Teardown],
      [SetupContext 19, SetWasm (Hex ''c0de''), OverrideStorage (Hex ''0a''), NewBlock,
       ReadTierConfig (Hex ''14''), Teardown],
      [SetupContext 29, SetWasm (Hex ''c0de''), OverrideStorage (Hex ''14''), NewBlock,
       ReadTierConfig (Hex ''1e''), Teardown]]"

section \<open>Maps\<close>

lemma map_of_map_set: "map_of (map_set k v m) = (map_of m)(k \<mapsto> v)"
  by (induction m) auto

lemma keys_map_set: "fst ` set (map_set k v m) = insert k (fst ` set m)"
proof (induction m)
  case Nil
  show ?case by simp
next
  case (Cons p m)
  obtain a b where p: "p = (a, b)" by (cases p)
  show ?case
  proof (cases "k = a")
    case True
    then show ?thesis by (simp add: p)
  next
    case False
    then show ?thesis using Cons.IH by (simp add: p insert_commute)
  qed
qed

lemma set_map_set: "set (map_set k v m) \<subseteq> insert (k, v) (set m)"
  by (induction m) (auto split: if_splits)

lemma map_set_not_Nil: "map_set k v m \<noteq> []"
  by (cases m) (auto split: if_splits)

lemma hd_map_set: "m \<noteq> [] \<Longrightarrow> fst (hd (map_set k v m)) = fst (hd m)"
  by (cases m) auto

lemma ensureHasEvent_cases:
  "ensureHasEvent events =
     (if \<exists>ev\<in>set events. ev_section ev = ''dappStaking'' \<and> ev_method ev = ''NewEra''
      then Inr () else Inl MissingNewEraEvent)"
  by (induction events) auto

(* C8 *)
lemma dappsReward_loop_inv:
  assumes "dappsReward_loop h rws integrated ds acc = Inr m"
    and "\<forall>(d, r)\<in>set acc. \<exists>dapp. find (\<lambda>x. dapp_num x = d) integrated = Some dapp \<and>
            beneficiary r = beneficiary_of dapp"
  shows "\<forall>(d, r)\<in>set m. \<exists>dapp. find (\<lambda>x. dapp_num x = d) integrated = Some dapp \<and>
            beneficiary r = beneficiary_of dapp"
  using assms
proof (induction ds arbitrary: acc)
  case Nil
  then show ?case by simp
next
  case (Cons p ds)
  obtain d t where p: "p = (d, t)" by (cases p)
  from Cons.prems(1) p obtain rw dapp where
    h: "h (js_index rws t) = Inr rw" and
    f: "find (\<lambda>x. dapp_num x = d) integrated = Some dapp" and
    rec: "dappsReward_loop h rws integrated ds
            (map_set d \<lparr>reward = rw, tierId = t, beneficiary = beneficiary_of dapp\<rparr> acc) = Inr m"
    by (auto split: sum.splits option.splits)
  have "\<forall>(d', r)\<in>set (map_set d \<lparr>reward = rw, tierId = t, beneficiary = beneficiary_of dapp\<rparr> acc).
          \<exists>dapp. find (\<lambda>x. dapp_num x = d') integrated = Some dapp \<and> beneficiary r = beneficiary_of dapp"
    using Cons.prems(2) f set_map_set[of d "\<lparr>reward = rw, tierId = t, beneficiary = beneficiary_of dapp\<rparr>" acc]
    by auto
  from Cons.IH[OF rec this] show ?case .
qed

lemma dappsReward_loop_keys:
  "dappsReward_loop h rws integrated ds acc = Inr m \<Longrightarrow>
   fst ` set m = fst ` set acc \<union> fst ` set ds"
proof (induction ds arbitrary: acc)
  case Nil
  then show ?case by simp
next
  case (Cons p ds)
  obtain d t where p: "p = (d, t)" by (cases p)
  from Cons.prems p obtain rw dapp where
    rec: "dappsReward_loop h rws integrated ds
            (map_set d \<lparr>reward = rw, tierId = t, beneficiary = beneficiary_of dapp\<rparr> acc) = Inr m"
    by (auto split: sum.splits option.splits)
  from Cons.IH[OF rec] show ?case by (simp add: keys_map_set p)
qed

lemma dappsReward_loop_missing:
  "(d, t) \<in> set ds \<Longrightarrow> find (\<lambda>x. dapp_num x = d) integrated = None \<Longrightarrow>
   \<exists>err. dappsReward_loop h rws integrated ds acc = Inl err"
proof (induction ds arbitrary: acc)
  case Nil
  then show ?case by simp
next
  case (Cons p ds)
  then show ?case
    by (cases p) (auto split: sum.splits option.splits)
qed

lemma dappsReward_loop_error:
  "dappsReward_loop h rws integrated ds acc = Inl err \<Longrightarrow>
   err = DappShouldExist \<or> (\<exists>x. h x = Inl err)"
proof (induction ds arbitrary: acc)
  case Nil
  then show ?case by simp
next
  case (Cons p ds)
  then show ?case
    by (cases p) (auto split: sum.splits option.splits)
qed

section \<open>Properties of the merge\<close>

lemma merge_dapps_step:
  "merge_dapps e (Some m) ((d, x) # ds) acc = Inr rows \<Longrightarrow>
   \<exists>actual. map_of m d = Some actual \<and> \<not> reward x - reward actual < 0 \<and>
     merge_dapps e (Some m) ds
       (acc @ [\<lparr>row_era = e, dapp_id = d, row_beneficiary = beneficiary x,
               expected_tier = tierId x, actual_tier = tierId actual,
               expected_reward = reward x, actual_reward = reward actual,
               delta = reward x - reward actual\<rparr>]) = Inr rows"
  by (auto split: option.splits if_splits)

lemma merge_dapps_None: "merge_dapps e None ds acc = Inr rows \<Longrightarrow> ds = [] \<and> rows = acc"
  by (cases ds) auto

lemma merge_dapps_Inr_iff:
  "(\<exists>rows. merge_dapps e (map_of actualTiers e) ds acc = Inr rows) =
   (\<forall>p\<in>set ds. pair_ok actualTiers e p)"
proof (induction ds arbitrary: acc)
  case Nil
  show ?case by simp
next
  case (Cons p ds)
  obtain d x where p: "p = (d, x)" by (cases p)
  show ?case
  proof (cases "actual_of actualTiers e d")
    case None
    then show ?thesis
      by (auto simp: p pair_ok_def actual_of_def split: option.splits)
  next
    case (Some actual)
    then obtain m where m: "map_of actualTiers e = Some m" "map_of m d = Some actual"
      by (auto simp: actual_of_def split: option.splits)
    show ?thesis
    proof (cases "reward x - reward actual < 0")
      case True
      with m Some show ?thesis by (auto simp: p pair_ok_def)
    next
      case False
      have "pair_ok actualTiers e p" using False Some by (simp add: p pair_ok_def)
      then show ?thesis
        using False m Cons.IH by (simp add: p)
    qed
  qed
qed

lemma merge_dapps_rows:
  "merge_dapps e am ds acc = Inr rows \<Longrightarrow>
   (\<lambda>r. (row_era r, dapp_id r)) ` set rows =
   (\<lambda>r. (row_era r, dapp_id r)) ` set acc \<union> (\<lambda>p. (e, fst p)) ` set ds"
proof (cases am)
  case None
  assume "merge_dapps e am ds acc = Inr rows"
  with None merge_dapps_None[of e ds acc rows] show ?thesis by simp
next
  case (Some m)
  assume "merge_dapps e am ds acc = Inr rows"
  then have "merge_dapps e (Some m) ds acc = Inr rows" using Some by simp
  then show ?thesis
  proof (induction ds arbitrary: acc)
    case Nil
    then show ?case by simp
  next
    case (Cons p ds)
    obtain d x where p: "p = (d, x)" by (cases p)
    from merge_dapps_step[OF Cons.prems[unfolded p]] obtain actual :: Reward where
      rec: "merge_dapps e (Some m) ds
             (acc @ [\<lparr>row_era = e, dapp_id = d, row_beneficiary = beneficiary x,
                     expected_tier = tierId x, actual_tier = tierId actual,
                     expected_reward = reward x, actual_reward = reward actual,
                     delta = reward x - reward actual\<rparr>]) = Inr rows"
      by auto
    from Cons.IH[OF rec] show ?case by (auto simp: p)
  qed
qed

lemma merge_dapps_delta:
  "merge_dapps e am ds acc = Inr rows \<Longrightarrow> \<forall>r\<in>set acc. 0 \<le> delta r \<Longrightarrow>
   \<forall>r\<in>set rows. 0 \<le> delta r"
proof (cases am)
  case None
  assume "merge_dapps e am ds acc = Inr rows" "\<forall>r\<in>set acc. 0 \<le> delta r"
  with None merge_dapps_None[of e ds acc rows] show ?thesis by simp
next
  case (Some m)
  assume "merge_dapps e am ds acc = Inr rows" and acc: "\<forall>r\<in>set acc. 0 \<le> delta r"
  then have "merge_dapps e (Some m) ds acc = Inr rows" using Some by simp
  then show ?thesis using acc
  proof (induction ds arbitrary: acc)
    case Nil
    then show ?case by simp
  next
    case (Cons p ds)
    obtain d x where p: "p = (d, x)" by (cases p)
    from merge_dapps_step[OF Cons.prems(1)[unfolded p]] obtain actual :: Reward where
      nn: "\<not> reward x - reward actual < 0" and
      rec: "merge_dapps e (Some m) ds
             (acc @ [\<lparr>row_era = e, dapp_id = d, row_beneficiary = beneficiary x,
                     expected_tier = tierId x, actual_tier = tierId actual,
                     expected_reward = reward x, actual_reward = reward actual,
                     delta = reward x - reward actual\<rparr>]) = Inr rows"
      by auto
    show ?case
      by (rule Cons.IH[OF rec]) (use Cons.prems(2) nn in auto)
  qed
qed

lemma merge_eras_Inr_iff:
  "(\<exists>rows. merge_eras actualTiers expectedTiers acc = Inr rows) =
   (\<forall>(e, ds)\<in>set expectedTiers. \<forall>p\<in>set ds. pair_ok actualTiers e p)"
proof (induction expectedTiers arbitrary: acc)
  case Nil
  show ?case by simp
next
  case (Cons q rest)
  obtain e ds where q: "q = (e, ds)" by (cases q)
  show ?case
  proof (cases "merge_dapps e (map_of actualTiers e) ds acc")
    case (Inl err)
    with merge_dapps_Inr_iff[of e actualTiers ds acc] show ?thesis
      by (auto simp: q)
  next
    case (Inr rows')
    with merge_dapps_Inr_iff[of e actualTiers ds acc] Cons.IH[of rows'] show ?thesis
      by (auto simp: q)
  qed
qed

lemma merge_eras_rows:
  "merge_eras actualTiers expectedTiers acc = Inr rows \<Longrightarrow>
   (\<lambda>r. (row_era r, dapp_id r)) ` set rows =
   (\<lambda>r. (row_era r, dapp_id r)) ` set acc \<union>
   {(e, d). \<exists>ds. (e, ds) \<in> set expectedTiers \<and> d \<in> fst ` set ds}"
proof (induction expectedTiers arbitrary: acc)
  case Nil
  then show ?case by simp
next
  case (Cons q rest)
  obtain e ds where q: "q = (e, ds)" by (cases q)
  from Cons.prems q obtain rows' where
    a: "merge_dapps e (map_of actualTiers e) ds acc = Inr rows'" and
    b: "merge_eras actualTiers rest rows' = Inr rows"
    by (auto split: sum.splits)
  from Cons.IH[OF b] merge_dapps_rows[OF a] show ?case
    by (auto simp: q)
qed

lemma merge_eras_delta:
  "merge_eras actualTiers expectedTiers acc = Inr rows \<Longrightarrow> \<forall>r\<in>set acc. 0 \<le> delta r \<Longrightarrow>
   \<forall>r\<in>set rows. 0 \<le> delta r"
proof (induction expectedTiers arbitrary: acc)
  case Nil
  then show ?case by simp
next
  case (Cons q rest)
  obtain e ds where q: "q = (e, ds)" by (cases q)
  from Cons.prems(1) q obtain rows' where
    a: "merge_dapps e (map_of actualTiers e) ds acc = Inr rows'" and
    b: "merge_eras actualTiers rest rows' = Inr rows"
    by (auto split: sum.splits)
  from Cons.IH[OF b merge_dapps_delta[OF a Cons.prems(2)]] show ?case .
qed

lemma merge_eras_bad_pair:
  assumes "(e, ds) \<in> set expectedTiers" "(d, expected) \<in> set ds"
    "map_of actualTiers e = Some m" "map_of m d = Some actual"
    "reward expected < reward actual"
  shows "\<exists>err. merge_eras actualTiers expectedTiers acc = Inl err"
proof -
  have "\<not> pair_ok actualTiers e (d, expected)"
    using assms(3-5) by (simp add: pair_ok_def actual_of_def)
  with assms(1,2) have "\<not> (\<forall>(e, ds)\<in>set expectedTiers. \<forall>p\<in>set ds. pair_ok actualTiers e p)"
    by blast
  then have "\<not> (\<exists>rows. merge_eras actualTiers expectedTiers acc = Inr rows)"
    using merge_eras_Inr_iff[of actualTiers expectedTiers acc] by simp
  then show ?thesis
    by (cases "merge_eras actualTiers expectedTiers acc") auto
qed

lemma pair_ok_unfold:
  "pair_ok actualTiers e p =
   (\<not> (case p of (d, x) \<Rightarrow>
         (case map_of actualTiers e of
            None \<Rightarrow> True
          | Some m \<Rightarrow> (case map_of m d of None \<Rightarrow> True | Some a \<Rightarrow> reward x < reward a))))"
  by (cases p) (auto simp: pair_ok_def actual_of_def split: option.splits)

lemma map_of_reimburse_step:
  "map_of (reimburse_step acc x) =
   (map_of acc)(row_beneficiary x \<mapsto>
      (case map_of acc (row_beneficiary x) of None \<Rightarrow> 0 | Some a \<Rightarrow> a) + delta x)"
  by (auto simp: reimburse_step_def map_of_map_set split: option.splits)

lemma map_of_foldl_reimburse:
  "map_of (foldl reimburse_step acc xs) b =
   (if \<exists>x\<in>set xs. row_beneficiary x = b
    then Some ((case map_of acc b of None \<Rightarrow> 0 | Some a \<Rightarrow> a) +
               sum_list (map delta (filter (\<lambda>x. row_beneficiary x = b) xs)))
    else map_of acc b)"
proof (induction xs arbitrary: acc)
  case Nil
  show ?case by simp
next
  case (Cons x xs)
  show ?case
    by (simp add: Cons.IH map_of_reimburse_step split: option.splits)
qed

lemma sum_delta_nonzero:
  "sum_list (map delta (filter (\<lambda>x. row_beneficiary x = b) (filter (\<lambda>x. delta x \<noteq> 0) xs))) =
   sum_list (map delta (filter (\<lambda>x. row_beneficiary x = b) xs))"
  by (induction xs) auto

lemma reimburse_step_pos:
  assumes "\<forall>(b, a)\<in>set acc. 0 < a" and "0 < delta x"
  shows "\<forall>(b, a)\<in>set (reimburse_step acc x). 0 < a"
proof -
  let ?amount = "case map_of acc (row_beneficiary x) of None \<Rightarrow> 0 | Some a \<Rightarrow> if a = 0 then 0 else a"
  have "0 \<le> ?amount"
  proof (cases "map_of acc (row_beneficiary x)")
    case None
    then show ?thesis by simp
  next
    case (Some a)
    then have "(row_beneficiary x, a) \<in> set acc" by (rule map_of_SomeD)
    with assms(1) have "0 < a" by auto
    with Some show ?thesis by simp
  qed
  with assms(2) have "0 < ?amount + delta x" by linarith
  moreover have "set (reimburse_step acc x) \<subseteq> insert (row_beneficiary x, ?amount + delta x) (set acc)"
    unfolding reimburse_step_def Let_def by (rule set_map_set)
  ultimately show ?thesis using assms(1) by auto
qed

lemma foldl_reimburse_pos:
  "\<forall>(b, a)\<in>set acc. 0 < a \<Longrightarrow> \<forall>x\<in>set xs. 0 < delta x \<Longrightarrow>
   \<forall>(b, a)\<in>set (foldl reimburse_step acc xs). 0 < a"
proof (induction xs arbitrary: acc)
  case Nil
  then show ?case by simp
next
  case (Cons x xs)
  have "\<forall>(b, a)\<in>set (reimburse_step acc x). 0 < a"
    using Cons.prems by (intro reimburse_step_pos) auto
  then show ?case using Cons.prems(2) by (simp add: Cons.IH)
qed

lemma foldl_plus_sum_list: "foldl (\<lambda>acc amount. acc + amount) (a::int) xs = a + sum_list xs"
  by (induction xs arbitrary: a) auto

lemma sum_list_pos_int: "xs \<noteq> [] \<Longrightarrow> \<forall>x\<in>set xs. (0::int) < x \<Longrightarrow> 0 < sum_list xs"
proof (induction xs)
  case Nil
  then show ?case by simp
next
  case (Cons x xs)
  then show ?case by (cases xs) (auto intro: add_pos_pos)
qed

section \<open>Properties of the scan\<close>

lemma scan_body_Inr:
  assumes "scan_body h api ps blocks actualTiers = Inr (ps', blocks', actualTiers')"
  shows "blocks' = map_set (era ps) (nextEraStart ps) blocks \<and>
         activeProtocolState api (nextEraStart ps) = Inr ps' \<and>
         (\<exists>events tiers integrated m.
            system_events api (nextEraStart ps) = Inr events \<and>
            ensureHasEvent events = Inr () \<and>
            dAppTiers api (nextEraStart ps) (era ps) = Inr tiers \<and>
            integratedDApps api (nextEraStart ps) = Inr integrated \<and>
            extractRewards h tiers integrated = Inr m \<and>
            actualTiers' = map_set (era ps) m actualTiers)"
  using assms unfolding scan_body_def Let_def
  by (auto split: sum.splits)



lemma scan_loop_stuck_aux:
  assumes run: "scan_loop h0 api0 endBlock0 ps0 blocks0 actualTiers0 = Some y0"
  shows "\<not> (\<forall>ps blocks actualTiers. \<exists>ps' blocks' actualTiers'.
             scan_body h0 api0 ps blocks actualTiers = Inr (ps', blocks', actualTiers') \<and>
             nextEraStart ps' < endBlock0)"
proof (rule scan_loop.raw_induct[where P = "\<lambda>h api endBlock ps blocks actualTiers y.
      \<not> (\<forall>ps blocks actualTiers. \<exists>ps' blocks' actualTiers'.
             scan_body h api ps blocks actualTiers = Inr (ps', blocks', actualTiers') \<and>
             nextEraStart ps' < endBlock)", OF _ run], goal_cases)
  case (1 loop h api endBlock ps blocks actualTiers y)
  show ?case
  proof
    assume a: "\<forall>ps blocks actualTiers. \<exists>ps' blocks' actualTiers'.
             scan_body h api ps blocks actualTiers = Inr (ps', blocks', actualTiers') \<and>
             nextEraStart ps' < endBlock"
    then obtain ps' blocks' actualTiers' where
      b: "scan_body h api ps blocks actualTiers = Inr (ps', blocks', actualTiers')" and
      c: "nextEraStart ps' < endBlock"
      by blast
    with 1(2) have "loop h api endBlock ps' blocks' actualTiers' = Some y" by simp
    from 1(1)[OF this] a show False by blast
  qed
qed

lemma scan_loop_stuck:
  assumes "\<forall>ps blocks actualTiers. \<exists>ps' blocks' actualTiers'.
             scan_body h api ps blocks actualTiers = Inr (ps', blocks', actualTiers') \<and>
             nextEraStart ps' < endBlock"
  shows "scan_loop h api endBlock ps blocks actualTiers = None"
proof (cases "scan_loop h api endBlock ps blocks actualTiers")
  case None
  then show ?thesis .
next
  case (Some y)
  from scan_loop_stuck_aux[OF this] assms show ?thesis by blast
qed

lemma scan_loop_advancing:
  assumes "\<forall>b st. activeProtocolState api b = Inr st \<longrightarrow> b < nextEraStart st"
  shows "\<exists>r. scan_loop h api endBlock ps blocks actualTiers = Some r"
proof (induction "endBlock - nextEraStart ps" arbitrary: ps blocks actualTiers rule: less_induct)
  case less
  show ?case
  proof (cases "scan_body h api ps blocks actualTiers")
    case (Inl err)
    then show ?thesis by (subst scan_loop.simps) simp
  next
    case (Inr st)
    obtain ps' blocks' actualTiers' where st: "st = (ps', blocks', actualTiers')"
      by (cases st)
    from scan_body_Inr[OF Inr[unfolded st]]
    have "activeProtocolState api (nextEraStart ps) = Inr ps'" by simp
    with assms have adv: "nextEraStart ps < nextEraStart ps'" by blast
    show ?thesis
    proof (cases "nextEraStart ps' < endBlock")
      case True
      with adv have "endBlock - nextEraStart ps' < endBlock - nextEraStart ps" by arith
      from less[OF this, of blocks' actualTiers'] obtain r where
        "scan_loop h api endBlock ps' blocks' actualTiers' = Some r" by blast
      with True Inr st show ?thesis by (subst scan_loop.simps) simp
    next
      case False
      with Inr st show ?thesis by (subst scan_loop.simps) simp
    qed
  qed
qed

lemma scan_loop_looping_aux:
  assumes run: "scan_loop h0 api0 endBlock0 ps0 blocks0 actualTiers0 = Some y0"
  shows "\<exists>n. scan_state n h0 api0 endBlock0 ps0 blocks0 actualTiers0 = None"
proof (rule scan_loop.raw_induct[where P = "\<lambda>h api endBlock ps blocks actualTiers y.
      \<exists>n. scan_state n h api endBlock ps blocks actualTiers = None", OF _ run], goal_cases)
  case (1 loop h api endBlock ps blocks actualTiers y)
  show ?case
  proof (cases "scan_body h api ps blocks actualTiers")
    case (Inl err)
    then have "scan_state (Suc 0) h api endBlock ps blocks actualTiers = None" by simp
    then show ?thesis by blast
  next
    case (Inr st)
    obtain ps' blocks' actualTiers' where st: "st = (ps', blocks', actualTiers')"
      by (cases st)
    show ?thesis
    proof (cases "nextEraStart ps' < endBlock")
      case True
      with 1(2) Inr st have "loop h api endBlock ps' blocks' actualTiers' = Some y" by simp
      from 1(1)[OF this] obtain n where
        "scan_state n h api endBlock ps' blocks' actualTiers' = None" by blast
      with True Inr st have "scan_state (Suc n) h api endBlock ps blocks actualTiers = None"
        by simp
      then show ?thesis by blast
    next
      case False
      with Inr st have "scan_state (Suc 0) h api endBlock ps blocks actualTiers = None" by simp
      then show ?thesis by blast
    qed
  qed
qed

lemma scan_loop_returns_of_state:
  "scan_state n h api endBlock ps blocks actualTiers = None \<Longrightarrow>
   \<exists>r. scan_loop h api endBlock ps blocks actualTiers = Some r"
proof (induction n arbitrary: ps blocks actualTiers)
  case 0
  then show ?case by simp
next
  case (Suc n)
  show ?case
  proof (cases "scan_body h api ps blocks actualTiers")
    case (Inl err)
    then show ?thesis by (subst scan_loop.simps) simp
  next
    case (Inr st)
    obtain ps' blocks' actualTiers' where st: "st = (ps', blocks', actualTiers')"
      by (cases st)
    show ?thesis
    proof (cases "nextEraStart ps' < endBlock")
      case True
      with Suc.prems Inr st have "scan_state n h api endBlock ps' blocks' actualTiers' = None"
        by simp
      from Suc.IH[OF this] obtain r where
        "scan_loop h api endBlock ps' blocks' actualTiers' = Some r" by blast
      with True Inr st show ?thesis by (subst scan_loop.simps) simp
    next
      case False
      with Inr st show ?thesis by (subst scan_loop.simps) simp
    qed
  qed
qed

lemma scan_loop_None_iff:
  "(scan_loop h api endBlock ps blocks actualTiers = None) =
   (\<forall>n. scan_state n h api endBlock ps blocks actualTiers \<noteq> None)"
proof
  assume a: "scan_loop h api endBlock ps blocks actualTiers = None"
  show "\<forall>n. scan_state n h api endBlock ps blocks actualTiers \<noteq> None"
  proof (intro allI notI)
    fix n assume "scan_state n h api endBlock ps blocks actualTiers = None"
    from scan_loop_returns_of_state[OF this] a show False by simp
  qed
next
  assume a: "\<forall>n. scan_state n h api endBlock ps blocks actualTiers \<noteq> None"
  show "scan_loop h api endBlock ps blocks actualTiers = None"
  proof (cases "scan_loop h api endBlock ps blocks actualTiers")
    case None
    then show ?thesis .
  next
    case (Some y)
    from scan_loop_looping_aux[OF this] a show ?thesis by blast
  qed
qed

lemma scan_body_any_maps:
  assumes "scan_body h api ps blocks actualTiers = Inr (ps', blocks', actualTiers')"
  shows "\<exists>b a. scan_body h api ps blocks2 actualTiers2 = Inr (ps', b, a)"
  using assms unfolding scan_body_def Let_def
  by (auto split: sum.splits)

lemma scan_state_fixed:
  assumes fixed: "activeProtocolState api (nextEraStart ps) = Inr ps"
    and below: "nextEraStart ps < endBlock"
    and ok: "scan_body h api ps blocks0 actualTiers0 = Inr r"
  shows "scan_state n h api endBlock ps blocks actualTiers \<noteq> None"
proof (induction n arbitrary: blocks actualTiers)
  case 0
  show ?case by simp
next
  case (Suc n)
  obtain p0 b0 a0 where r: "r = (p0, b0, a0)" by (cases r)
  from scan_body_any_maps[OF ok[unfolded r], of blocks actualTiers] obtain b a where
    body: "scan_body h api ps blocks actualTiers = Inr (p0, b, a)" by blast
  from scan_body_Inr[OF body] fixed have "p0 = ps" by simp
  with body below Suc.IH[of b a] show ?case by simp
qed

lemma scan_loop_repeated_boundary:
  assumes body: "scan_body h api ps blocks actualTiers = Inr (ps', blocks', actualTiers')"
    and same: "nextEraStart ps' = nextEraStart ps"
    and below: "nextEraStart ps' < endBlock"
    and ok: "scan_body h api ps' blocks' actualTiers' = Inr r"
  shows "scan_loop h api endBlock ps blocks actualTiers = None"
proof -
  from scan_body_Inr[OF body] same
  have fp: "activeProtocolState api (nextEraStart ps') = Inr ps'" by simp
  have "scan_state n h api endBlock ps' blocks' actualTiers' \<noteq> None" for n
    by (rule scan_state_fixed[OF fp below ok])
  then have "scan_loop h api endBlock ps' blocks' actualTiers' = None"
    by (simp add: scan_loop_None_iff)
  with body below show ?thesis by (subst scan_loop.simps) simp
qed

section \<open>Properties of the replay\<close>

lemma hex_truthy: "js_truthy (hex_string cfg)"
  by (cases cfg) (simp add: js_truthy_def)

lemma override_step_cases:
  "override_step cs ctx tc = (ops, r) \<Longrightarrow>
   (\<exists>err. r = Inl err \<and> ops = []) \<or> (\<exists>ctx'. r = Inr ctx' \<and> ops = override_ops tc)"
proof (cases tc)
  case None
  assume "override_step cs ctx tc = (ops, r)"
  with None show ?thesis by (auto simp: override_step_def override_ops_def)
next
  case (Some cfg)
  assume a: "override_step cs ctx tc = (ops, r)"
  show ?thesis
  proof (cases "overrideStorage cs ctx cfg")
    case (Inl err)
    with a Some have "ops = []" and "r = Inl err"
      by (simp_all add: override_step_def hex_truthy)
    then show ?thesis by blast
  next
    case (Inr ctx')
    with a Some have "ops = override_ops tc" and "r = Inr ctx'"
      by (simp_all add: override_step_def override_ops_def hex_truthy)
    then show ?thesis by blast
  qed
qed

lemma read_fork_cases:
  "read_fork cs h e ctx = (ops, r) \<Longrightarrow>
   (\<exists>err. r = Inl err \<and> (ops = [] \<or> (\<exists>cfg. ops = [ReadTierConfig cfg]))) \<or>
   (\<exists>cfg rs. r = Inr (cfg, rs) \<and> ops = [ReadTierConfig cfg])"
  unfolding read_fork_def
  by (auto split: sum.splits)

lemma replay_iter_Inr:
  assumes "replay_iter cs h rt tc e block = (ops, Inr (cfg, rs))"
  shows "ops = [SetupContext (int block - 1), SetWasm rt] @ override_ops tc @
               [NewBlock, ReadTierConfig cfg, Teardown]"
proof -
  from assms obtain ctx0 where c0: "setupContext cs (int block - 1) = Inr ctx0"
    by (auto simp: replay_iter_def split: sum.splits)
  obtain ops2 r2 where o: "override_step cs (setWasm cs ctx0 rt) tc = (ops2, r2)"
    by (cases "override_step cs (setWasm cs ctx0 rt) tc")
  from assms c0 o obtain ctx2 where r2: "r2 = Inr ctx2"
    by (cases r2) (auto simp: replay_iter_def Let_def)
  with override_step_cases[OF o] have ops2: "ops2 = override_ops tc" by auto
  from assms c0 o r2 obtain ctx3 where c3: "newBlock cs ctx2 = Inr ctx3"
    by (cases "newBlock cs ctx2") (auto simp: replay_iter_def Let_def)
  obtain ops3 r3 where f: "read_fork cs h e ctx3 = (ops3, r3)"
    by (cases "read_fork cs h e ctx3")
  from assms c0 o r2 c3 f have r3: "r3 = Inr (cfg, rs)"
    by (cases r3; cases "teardown cs ctx3") (auto simp: replay_iter_def Let_def)
  with read_fork_cases[OF f] have ops3: "ops3 = [ReadTierConfig cfg]" by auto
  from assms c0 o r2 c3 f r3 ops2 ops3 show ?thesis
    by (cases "teardown cs ctx3") (auto simp: replay_iter_def Let_def)
qed

lemma replay_iter_Inl:
  assumes "replay_iter cs h rt tc e block = (ops, Inl err)"
  shows "ops = [] \<or>
         ops = [SetupContext (int block - 1), SetWasm rt] \<or>
         ops = [SetupContext (int block - 1), SetWasm rt] @ override_ops tc \<or>
         ops = [SetupContext (int block - 1), SetWasm rt] @ override_ops tc @ [NewBlock] \<or>
         (\<exists>cfg. ops = [SetupContext (int block - 1), SetWasm rt] @ override_ops tc @
                       [NewBlock, ReadTierConfig cfg])"
proof (cases "setupContext cs (int block - 1)")
  case (Inl a)
  with assms show ?thesis by (simp add: replay_iter_def)
next
  case (Inr ctx0)
  obtain ops2 r2 where o: "override_step cs (setWasm cs ctx0 rt) tc = (ops2, r2)"
    by (cases "override_step cs (setWasm cs ctx0 rt) tc")
  show ?thesis
  proof (cases r2)
    case (Inl a)
    with override_step_cases[OF o] have "ops2 = []" by auto
    with assms Inr o Inl show ?thesis by (simp add: replay_iter_def Let_def)
  next
    case r2: (Inr ctx2)
    with override_step_cases[OF o] have ops2: "ops2 = override_ops tc" by auto
    show ?thesis
    proof (cases "newBlock cs ctx2")
      case (Inl a)
      with assms Inr o r2 ops2 show ?thesis by (simp add: replay_iter_def Let_def)
    next
      case c3: (Inr ctx3)
      obtain ops3 r3 where f: "read_fork cs h e ctx3 = (ops3, r3)"
        by (cases "read_fork cs h e ctx3")
      from read_fork_cases[OF f] have "ops3 = [] \<or> (\<exists>cfg. ops3 = [ReadTierConfig cfg])"
        by auto
      moreover from assms Inr o r2 ops2 c3 f have
        "ops = [SetupContext (int block - 1), SetWasm rt] @ override_ops tc @ [NewBlock] @ ops3"
        by (cases r3; cases "teardown cs ctx3") (auto simp: replay_iter_def Let_def)
      ultimately show ?thesis by auto
    qed
  qed
qed

lemma override_of_override_ops [simp]: "override_of (override_ops tc @ ops) = (case tc of None \<Rightarrow> override_of ops | Some c \<Rightarrow> Some c)"
  by (simp add: override_ops_def split: option.splits)

lemma override_ops_set [simp]:
  "NewBlock \<notin> set (override_ops tc)" "Teardown \<notin> set (override_ops tc)"
  by (simp_all add: override_ops_def split: option.splits)

lemma replay_iter_Inr_log:
  assumes "replay_iter cs h rt tc e block = (ops, Inr (cfg, rs))"
  shows "override_of ops = tc \<and> readback_of ops = Some cfg \<and>
         hd ops = SetupContext (int block - 1) \<and> last ops = Teardown \<and>
         count_list ops Teardown = 1 \<and> fork_held False ops = Some False"
  unfolding replay_iter_Inr[OF assms]
  by (cases tc) (simp_all add: override_ops_def)

lemma replay_iter_Inl_log:
  assumes "replay_iter cs h rt tc e block = (ops, Inl err)"
  shows "(override_of ops = tc \<or> override_of ops = None \<and> NewBlock \<notin> set ops) \<and>
         Teardown \<notin> set ops \<and> fork_held False ops = Some (ops \<noteq> [])"
  using replay_iter_Inl[OF assms]
  by (cases tc) (auto simp: override_ops_def)

lemma fork_held_append:
  "fork_held held (xs @ ys) = (case fork_held held xs of None \<Rightarrow> None | Some held' \<Rightarrow> fork_held held' ys)"
proof (induction xs arbitrary: held)
  case Nil
  show ?case by simp
next
  case (Cons op xs)
  show ?case by (cases op) (simp_all add: Cons.IH)
qed

lemma replay_loop_Cons_Inl:
  "replay_iter cs h rt tc e block = (ops, Inl err) \<Longrightarrow>
   replay_loop cs h rt tc ((e, block) # rest) expected = ([ops], Inl err)"
  by simp

lemma replay_loop_Cons_Inr:
  "replay_iter cs h rt tc e block = (ops, Inr (cfg, rs)) \<Longrightarrow>
   replay_loop cs h rt tc ((e, block) # rest) expected =
     (ops # fst (replay_loop cs h rt (Some cfg) rest (map_set e rs expected)),
      snd (replay_loop cs h rt (Some cfg) rest (map_set e rs expected)))"
  by (simp add: case_prod_unfold)


lemma replay_loop_forks:
  "replay_loop cs h rt tc blocks expected = (trace, res) \<Longrightarrow>
   (\<forall>ex. res = Inr ex \<longrightarrow>
      map hd trace = map (\<lambda>(e, block). SetupContext (int block - 1)) blocks \<and>
      (\<forall>ops\<in>set trace. count_list ops Teardown = 1 \<and> last ops = Teardown) \<and>
      fork_held False (concat trace) = Some False) \<and>
   (\<forall>err. res = Inl err \<longrightarrow>
      trace \<noteq> [] \<and> Teardown \<notin> set (last trace) \<and>
      (\<forall>ops\<in>set (butlast trace). count_list ops Teardown = 1 \<and> last ops = Teardown) \<and>
      fork_held False (concat trace) = Some (last trace \<noteq> []))"
proof (induction blocks arbitrary: tc expected trace res)
  case Nil
  then show ?case by auto
next
  case (Cons p rest)
  obtain e block where p: "p = (e, block)" by (cases p)
  obtain ops r where it: "replay_iter cs h rt tc e block = (ops, r)"
    by (cases "replay_iter cs h rt tc e block")
  show ?case
  proof (cases r)
    case (Inl err)
    with it have "replay_loop cs h rt tc ((e, block) # rest) expected = ([ops], Inl err)"
      by simp
    with Cons.prems p have "trace = [ops]" "res = Inl err" by simp_all
    with replay_iter_Inl_log[OF it[unfolded Inl]] show ?thesis by simp
  next
    case (Inr v)
    obtain cfg rs where v: "v = (cfg, rs)" by (cases v)
    let ?next = "replay_loop cs h rt (Some cfg) rest (map_set e rs expected)"
    from it Inr v have it': "replay_iter cs h rt tc e block = (ops, Inr (cfg, rs))" by simp
    from replay_loop_Cons_Inr[OF it'] Cons.prems p
    have tr: "trace = ops # fst ?next" and rs: "res = snd ?next" by simp_all
    have IH: "(\<forall>ex. snd ?next = Inr ex \<longrightarrow>
      map hd (fst ?next) = map (\<lambda>(e, block). SetupContext (int block - 1)) rest \<and>
      (\<forall>ops\<in>set (fst ?next). count_list ops Teardown = 1 \<and> last ops = Teardown) \<and>
      fork_held False (concat (fst ?next)) = Some False) \<and>
     (\<forall>err. snd ?next = Inl err \<longrightarrow>
      fst ?next \<noteq> [] \<and> Teardown \<notin> set (last (fst ?next)) \<and>
      (\<forall>ops\<in>set (butlast (fst ?next)). count_list ops Teardown = 1 \<and> last ops = Teardown) \<and>
      fork_held False (concat (fst ?next)) = Some (last (fst ?next) \<noteq> []))"
      by (rule Cons.IH[of "Some cfg" "map_set e rs expected" "fst ?next" "snd ?next"]) simp
    from replay_iter_Inr_log[OF it'] have o:
      "hd ops = SetupContext (int block - 1)" "last ops = Teardown"
      "count_list ops Teardown = 1" "fork_held False ops = Some False"
      by simp_all
    show ?thesis
      using IH o by (auto simp: tr rs p fork_held_append)
  qed
qed

section \<open>The fixtures evaluated\<close>

lemma fx_hex_ok: "fx_hexToBigInt x \<noteq> Inl err"
  by (simp add: fx_hexToBigInt_def split: option.splits)

lemma fx_extract:
  "extractRewards fx_hexToBigInt (fx_tiers a b c e) fx_integrated =
     Inr (if e = 1 then [(1, \<lparr>reward = a, tierId = 0, beneficiary = ''A''\<rparr>),
                         (2, \<lparr>reward = 200, tierId = 1, beneficiary = ''B''\<rparr>)]
          else if e = 2 then [(1, \<lparr>reward = b, tierId = 0, beneficiary = ''A''\<rparr>)]
          else [(3, \<lparr>reward = c, tierId = 0, beneficiary = ''C''\<rparr>)])"
  by (simp add: extractRewards_def fx_hexToBigInt_def fx_integrated_def fx_tiers_def
        js_index_def beneficiary_of_def js_truthy_def)

lemma fx_api_state:
  "activeProtocolState fx_api b =
     Inr \<lparr>nextEraStart = 10 * (b div 10 + 1), era = b div 10 + 1\<rparr>"
  by (simp add: fx_api_def)

lemma fx_scan_body:
  "scan_body fx_hexToBigInt fx_api ps blocks actualTiers =
     Inr (\<lparr>nextEraStart = 10 * (nextEraStart ps div 10 + 1), era = nextEraStart ps div 10 + 1\<rparr>,
          map_set (era ps) (nextEraStart ps) blocks,
          map_set (era ps)
            (if era ps = 1 then [(1, \<lparr>reward = 100, tierId = 0, beneficiary = ''A''\<rparr>),
                                 (2, \<lparr>reward = 200, tierId = 1, beneficiary = ''B''\<rparr>)]
             else if era ps = 2 then [(1, \<lparr>reward = 50, tierId = 0, beneficiary = ''A''\<rparr>)]
             else [(3, \<lparr>reward = 10, tierId = 0, beneficiary = ''C''\<rparr>)])
            actualTiers)"
  by (simp add: scan_body_def Let_def fx_api_def fx_newEra_def fx_other_def fx_extract)

lemma fx_scan:
  "scan fx_hexToBigInt fx_api 5 35 = Some (Inr (fx_blocks, fx_actual))"
  by (simp add: scan_def fx_api_state scan_loop.simps fx_scan_body fx_actual_def fx_blocks_def)

lemma fx_code: "substrate_code fx_api b = Inr (Hex ''c0de'')"
  by (simp add: fx_api_def)

lemma fx_read_fork:
  "read_fork fx_cs fx_hexToBigInt e ctx =
     ([ReadTierConfig (if fst ctx = 10 then Hex ''0a'' else if fst ctx = 20 then Hex ''14''
                       else Hex ''1e'')],
      Inr (if fst ctx = 10 then Hex ''0a'' else if fst ctx = 20 then Hex ''14'' else Hex ''1e'',
           if e = 1 then [(1, \<lparr>reward = 150, tierId = 0, beneficiary = ''A''\<rparr>),
                          (2, \<lparr>reward = 200, tierId = 1, beneficiary = ''B''\<rparr>)]
           else if e = 2 then [(1, \<lparr>reward = 50, tierId = 0, beneficiary = ''A''\<rparr>)]
           else [(3, \<lparr>reward = 40, tierId = 0, beneficiary = ''C''\<rparr>)]))"
  by (simp add: read_fork_def fx_cs_def fx_newEra_def fx_extract)

lemma fx_read_fork_low:
  "read_fork fx_low_cs fx_hexToBigInt e ctx =
     ([ReadTierConfig (if fst ctx = 10 then Hex ''0a'' else if fst ctx = 20 then Hex ''14''
                       else Hex ''1e'')],
      Inr (if fst ctx = 10 then Hex ''0a'' else if fst ctx = 20 then Hex ''14'' else Hex ''1e'',
           if e = 1 then [(1, \<lparr>reward = 150, tierId = 0, beneficiary = ''A''\<rparr>),
                          (2, \<lparr>reward = 200, tierId = 1, beneficiary = ''B''\<rparr>)]
           else if e = 2 then [(1, \<lparr>reward = 40, tierId = 0, beneficiary = ''A''\<rparr>)]
           else [(3, \<lparr>reward = 40, tierId = 0, beneficiary = ''C''\<rparr>)]))"
  by (simp add: read_fork_def fx_low_cs_def fx_cs_def fx_newEra_def fx_extract)

lemma fx_read_fork_silent:
  "read_fork fx_silent_cs fx_hexToBigInt e ctx = ([], Inl MissingNewEraEvent)"
  by (simp add: read_fork_def fx_silent_cs_def fx_cs_def fx_other_def)

lemma fx_cs_sel:
  "setupContext fx_cs b = Inr (b, None)"
  "setWasm fx_cs ctx rt = ctx"
  "overrideStorage fx_cs ctx cfg = Inr (fst ctx, Some cfg)"
  "newBlock fx_cs ctx = Inr (fst ctx + 1, snd ctx)"
  "teardown fx_cs ctx = Inr ()"
  by (simp_all add: fx_cs_def)

lemma fx_low_cs_sel:
  "setupContext fx_low_cs b = Inr (b, None)"
  "setWasm fx_low_cs ctx rt = ctx"
  "overrideStorage fx_low_cs ctx cfg = Inr (fst ctx, Some cfg)"
  "newBlock fx_low_cs ctx = Inr (fst ctx + 1, snd ctx)"
  "teardown fx_low_cs ctx = Inr ()"
  by (simp_all add: fx_low_cs_def fx_cs_def)

lemma fx_silent_cs_sel:
  "setupContext fx_silent_cs b = Inr (b, None)"
  "setWasm fx_silent_cs ctx rt = ctx"
  "overrideStorage fx_silent_cs ctx cfg = Inr (fst ctx, Some cfg)"
  "newBlock fx_silent_cs ctx = Inr (fst ctx + 1, snd ctx)"
  "teardown fx_silent_cs ctx = Inr ()"
  by (simp_all add: fx_silent_cs_def fx_cs_def)

lemma fx_replay_iter:
  "replay_iter fx_cs fx_hexToBigInt rt tc e block =
     ([SetupContext (int block - 1), SetWasm rt] @ override_ops tc @
      [NewBlock, ReadTierConfig (if block = 10 then Hex ''0a'' else if block = 20 then Hex ''14''
                                 else Hex ''1e''), Teardown],
      Inr (if block = 10 then Hex ''0a'' else if block = 20 then Hex ''14'' else Hex ''1e'',
           if e = 1 then [(1, \<lparr>reward = 150, tierId = 0, beneficiary = ''A''\<rparr>),
                          (2, \<lparr>reward = 200, tierId = 1, beneficiary = ''B''\<rparr>)]
           else if e = 2 then [(1, \<lparr>reward = 50, tierId = 0, beneficiary = ''A''\<rparr>)]
           else [(3, \<lparr>reward = 40, tierId = 0, beneficiary = ''C''\<rparr>)]))"
  by (cases tc)
     (simp_all add: replay_iter_def Let_def override_step_def override_ops_def hex_truthy
        fx_read_fork fx_cs_sel)

lemma fx_replay:
  "replay fx_cs fx_hexToBigInt (Hex ''c0de'') fx_blocks =
     (fx_trace, Inr fx_expected)"
  by (simp add: replay_def fx_blocks_def fx_replay_iter override_ops_def fx_trace_def fx_expected_def)

lemma fx_merge: "merge_eras fx_actual fx_expected [] = Inr fx_rows"
  by (simp add: fx_expected_def fx_actual_def fx_rows_def)

lemma fx_merge_extra: "merge_eras fx_actual_extra fx_expected [] = Inr fx_rows"
  by (simp add: fx_expected_def fx_actual_extra_def fx_rows_def)

lemma fx_merge_low: "merge_eras fx_actual fx_expected_low [] = Inl NegativeDelta"
  by (simp add: fx_expected_low_def fx_actual_def)

lemma fx_reimburse: "reimburse fx_rows = [(''A'', 50), (''C'', 30)]"
  by (simp add: fx_rows_def reimburse_def reimburse_step_def)

lemma fx_total: "total_astr [(''A'', 50), (''C'', 30)] = 0"
  by (simp add: total_astr_def ledger_sum_def bigint_div_def)

lemma fx_aggregate: "aggregate fx_expected fx_actual =
    (fx_writes, Inr (fx_rows, [(''A'', 50), (''C'', 30)], 0))"
  by (simp add: aggregate_def Let_def fx_merge fx_reimburse fx_total fx_writes_def)

lemma fx_aggregate_extra: "aggregate fx_expected fx_actual_extra =
    (fx_writes, Inr (fx_rows, [(''A'', 50), (''C'', 30)], 0))"
  by (simp add: aggregate_def Let_def fx_merge_extra fx_reimburse fx_total fx_writes_def)

lemma fx_aggregate_low: "aggregate fx_expected_low fx_actual = ([], Inl NegativeDelta)"
  by (simp add: aggregate_def fx_merge_low)

lemma fx_replay_iter_low:
  "replay_iter fx_low_cs fx_hexToBigInt rt tc e block =
     ([SetupContext (int block - 1), SetWasm rt] @ override_ops tc @
      [NewBlock, ReadTierConfig (if block = 10 then Hex ''0a'' else if block = 20 then Hex ''14''
                                 else Hex ''1e''), Teardown],
      Inr (if block = 10 then Hex ''0a'' else if block = 20 then Hex ''14'' else Hex ''1e'',
           if e = 1 then [(1, \<lparr>reward = 150, tierId = 0, beneficiary = ''A''\<rparr>),
                          (2, \<lparr>reward = 200, tierId = 1, beneficiary = ''B''\<rparr>)]
           else if e = 2 then [(1, \<lparr>reward = 40, tierId = 0, beneficiary = ''A''\<rparr>)]
           else [(3, \<lparr>reward = 40, tierId = 0, beneficiary = ''C''\<rparr>)]))"
  by (cases tc)
     (simp_all add: replay_iter_def Let_def override_step_def override_ops_def hex_truthy
        fx_read_fork_low fx_low_cs_sel)

lemma fx_replay_low:
  "replay fx_low_cs fx_hexToBigInt (Hex ''c0de'') fx_blocks =
     (fx_trace, Inr fx_expected_low)"
  by (simp add: replay_def fx_blocks_def fx_replay_iter_low override_ops_def fx_trace_def fx_expected_low_def)

lemma fx_replay_iter_silent:
  "replay_iter fx_silent_cs fx_hexToBigInt rt None e block =
     ([SetupContext (int block - 1), SetWasm rt, NewBlock], Inl MissingNewEraEvent)"
  by (simp add: replay_iter_def Let_def override_step_def fx_read_fork_silent
        fx_silent_cs_sel)

lemma fx_replay_silent:
  "replay fx_silent_cs fx_hexToBigInt (Hex ''c0de'') fx_blocks =
     ([[SetupContext 9, SetWasm (Hex ''c0de''), NewBlock]], Inl MissingNewEraEvent)"
  by (simp add: replay_def fx_blocks_def fx_replay_iter_silent)

lemma fx_main:
  "main_with 5 35 fx_hexToBigInt fx_api fx_cs =
     Some \<lparr>forks = fx_trace, written = fx_writes, outcome = Inr 0\<rparr>"
  by (simp add: main_with_def fx_scan fx_code fx_replay fx_aggregate)

lemma fx_main_low:
  "main_with 5 35 fx_hexToBigInt fx_api fx_low_cs =
     Some \<lparr>forks = fx_trace, written = [], outcome = Inl NegativeDelta\<rparr>"
  by (simp add: main_with_def fx_scan fx_code fx_replay_low fx_aggregate_low)

lemma ensureHasEvent_not_ok:
  "ensureHasEvent events \<noteq> Inr () \<Longrightarrow> ensureHasEvent events = Inl MissingNewEraEvent"
  by (induction events) (auto split: if_splits)

lemma scan_body_missing_event:
  assumes "system_events api (nextEraStart ps) = Inr events" and "ensureHasEvent events \<noteq> Inr ()"
  shows "scan_body h api ps blocks actualTiers = Inl MissingNewEraEvent"
proof -
  from assms(2) have "ensureHasEvent events = Inl MissingNewEraEvent"
    by (rule ensureHasEvent_not_ok)
  with assms(1) show ?thesis by (simp add: scan_body_def Let_def)
qed

lemma read_fork_missing_event:
  assumes "ctx_events cs ctx = Inr events" and "ensureHasEvent events \<noteq> Inr ()"
  shows "read_fork cs h e ctx = ([], Inl MissingNewEraEvent)"
proof -
  from assms(2) have "ensureHasEvent events = Inl MissingNewEraEvent"
    by (rule ensureHasEvent_not_ok)
  with assms(1) show ?thesis by (simp add: read_fork_def)
qed

lemma fx_stuck_body:
  "scan_body fx_hexToBigInt fx_stuck_api ps blocks actualTiers =
     Inr (\<lparr>nextEraStart = 5, era = 1\<rparr>,
          map_set (era ps) (nextEraStart ps) blocks, map_set (era ps) [] actualTiers)"
  by (simp add: scan_body_def Let_def fx_stuck_api_def fx_api_def fx_newEra_def fx_other_def
        extractRewards_def)

lemma fx_stuck5_body:
  "scan_body fx_hexToBigInt fx_stuck5_api \<lparr>nextEraStart = 5, era = 1\<rparr> blocks actualTiers =
     Inr (\<lparr>nextEraStart = 5, era = 1\<rparr>, map_set 1 5 blocks, map_set 1 [] actualTiers)"
  by (simp add: scan_body_def Let_def fx_stuck5_api_def fx_newEra_def extractRewards_def)

section \<open>The claims\<close>

text \<open>
  \<^bold>\<open>C1.\<close> If some recipient of some era of \<open>expectedTiers\<close> has an actual record whose
  reward is strictly larger than the expected one, the merge ends in an error and
  \<open>aggregate\<close> has written none of the four files. When these maps are the ones the scan
  and the replay produced, the whole run ends in that error with nothing written.
\<close>

theorem negative_delta_aborts:
  assumes "(e, ds) \<in> set expectedTiers" and "(d, expected) \<in> set ds"
    and "map_of actualTiers e = Some m" and "map_of m d = Some actual"
    and "reward expected < reward actual"
  shows "(\<exists>err. aggregate expectedTiers actualTiers = ([], Inl err)) \<and>
         (scan hexToBigInt api startBlock endBlock = Some (Inr (blocks, actualTiers)) \<and>
          substrate_code api endBlock = Inr runtime \<and>
          replay cs hexToBigInt runtime blocks = (trace, Inr expectedTiers) \<longrightarrow>
          (\<exists>err. main_with startBlock endBlock hexToBigInt api cs =
                    Some \<lparr>forks = trace, written = [], outcome = Inl err\<rparr>))"
proof -
  from merge_eras_bad_pair[OF assms, of "[]"] obtain err where
    "merge_eras actualTiers expectedTiers [] = Inl err" by blast
  then have a: "aggregate expectedTiers actualTiers = ([], Inl err)"
    by (simp add: aggregate_def)
  show ?thesis
  proof (intro conjI impI)
    show "\<exists>err. aggregate expectedTiers actualTiers = ([], Inl err)" using a by blast
  next
    assume "scan hexToBigInt api startBlock endBlock = Some (Inr (blocks, actualTiers)) \<and>
          substrate_code api endBlock = Inr runtime \<and>
          replay cs hexToBigInt runtime blocks = (trace, Inr expectedTiers)"
    then have "main_with startBlock endBlock hexToBigInt api cs =
                    Some \<lparr>forks = trace, written = [], outcome = Inl err\<rparr>"
      using a by (simp add: main_with_def)
    then show "\<exists>err. main_with startBlock endBlock hexToBigInt api cs =
                    Some \<lparr>forks = trace, written = [], outcome = Inl err\<rparr>" by blast
  qed
qed

theorem negative_delta_aborts_witness:
  "reward \<lparr>reward = 40, tierId = 0, beneficiary = ''A''\<rparr> <
     reward \<lparr>reward = 50, tierId = 0, beneficiary = ''A''\<rparr> \<and>
   (\<exists>err. aggregate fx_expected_low fx_actual = ([], Inl err)) \<and>
   (\<exists>err. main_with 5 35 fx_hexToBigInt fx_api fx_low_cs =
            Some \<lparr>forks = fx_trace, written = [], outcome = Inl err\<rparr>)"
proof -
  let ?r40 = "\<lparr>reward = 40, tierId = 0, beneficiary = ''A''\<rparr> :: Reward"
  let ?r50 = "\<lparr>reward = 50, tierId = 0, beneficiary = ''A''\<rparr> :: Reward"
  have h1: "(2, [(1, ?r40)]) \<in> set fx_expected_low" by (simp add: fx_expected_low_def)
  have h2: "(1, ?r40) \<in> set [(1::nat, ?r40)]" by simp
  have h3: "map_of fx_actual 2 = Some [(1, ?r50)]" by (simp add: fx_actual_def)
  have h4: "map_of [(1::nat, ?r50)] 1 = Some ?r50" by simp
  have h5: "reward ?r40 < reward ?r50" by simp
  note t = negative_delta_aborts[OF h1 h2 h3 h4 h5, where hexToBigInt = fx_hexToBigInt
      and api = fx_api and startBlock = 5 and endBlock = 35 and blocks = fx_blocks
      and runtime = "Hex ''c0de''" and cs = fx_low_cs and trace = fx_trace]
  from t fx_scan fx_code fx_replay_low h5 show ?thesis by blast
qed

text \<open>
  \<^bold>\<open>C2\<close> (as the code has it). The merge walks the expected sets only. It fails exactly
  when some expected recipient has no actual record or a larger actual reward; a recipient
  that only the actual set holds is never looked at and raises nothing. When the merge
  succeeds, a row exists for an era and a recipient if and only if the recipient is in
  the expected set of that era and has an actual record there.
\<close>

theorem rows_follow_expected:
  assumes "aggregate expectedTiers actualTiers = (ws, res)"
  shows "(isl res =
            (\<exists>(e, ds)\<in>set expectedTiers. \<exists>(d, x)\<in>set ds.
               case map_of actualTiers e of
                 None \<Rightarrow> True
               | Some m \<Rightarrow> (case map_of m d of None \<Rightarrow> True | Some a \<Rightarrow> reward x < reward a))) \<and>
         (\<forall>rows ledger t. res = Inr (rows, ledger, t) \<longrightarrow>
            (\<forall>e d. (\<exists>r\<in>set rows. row_era r = e \<and> dapp_id r = d) =
                    ((\<exists>ds. (e, ds) \<in> set expectedTiers \<and> d \<in> fst ` set ds) \<and>
                     (\<exists>m a. map_of actualTiers e = Some m \<and> map_of m d = Some a))))"
proof (intro conjI allI impI)
  have "isl res = (\<not> (\<exists>rows. merge_eras actualTiers expectedTiers [] = Inr rows))"
    using assms by (auto simp: aggregate_def Let_def split: sum.splits)
  also have "\<dots> = (\<not> (\<forall>(e, ds)\<in>set expectedTiers. \<forall>p\<in>set ds. pair_ok actualTiers e p))"
    by (simp only: merge_eras_Inr_iff)
  also have "\<dots> = (\<exists>(e, ds)\<in>set expectedTiers. \<exists>(d, x)\<in>set ds.
               case map_of actualTiers e of
                 None \<Rightarrow> True
               | Some m \<Rightarrow> (case map_of m d of None \<Rightarrow> True | Some a \<Rightarrow> reward x < reward a))"
    by (simp add: pair_ok_unfold case_prod_unfold)
  finally show "isl res = (\<exists>(e, ds)\<in>set expectedTiers. \<exists>(d, x)\<in>set ds.
               case map_of actualTiers e of
                 None \<Rightarrow> True
               | Some m \<Rightarrow> (case map_of m d of None \<Rightarrow> True | Some a \<Rightarrow> reward x < reward a))" .
next
  fix rows ledger t e d
  assume res: "res = Inr (rows, ledger, t)"
  with assms have m: "merge_eras actualTiers expectedTiers [] = Inr rows"
    by (auto simp: aggregate_def Let_def split: sum.splits)
  have eq: "(\<lambda>r. (row_era r, dapp_id r)) ` set rows =
            {(e, d). \<exists>ds. (e, ds) \<in> set expectedTiers \<and> d \<in> fst ` set ds}"
    using merge_eras_rows[OF m] by simp
  have "(\<exists>r\<in>set rows. row_era r = e \<and> dapp_id r = d) =
        ((e, d) \<in> (\<lambda>r. (row_era r, dapp_id r)) ` set rows)"
    by (auto simp: image_iff)
  also have "\<dots> = (\<exists>ds. (e, ds) \<in> set expectedTiers \<and> d \<in> fst ` set ds)"
    unfolding eq by simp
  finally have keys:
    "(\<exists>r\<in>set rows. row_era r = e \<and> dapp_id r = d) =
     (\<exists>ds. (e, ds) \<in> set expectedTiers \<and> d \<in> fst ` set ds)" .
  have ok: "\<forall>(e, ds)\<in>set expectedTiers. \<forall>p\<in>set ds. pair_ok actualTiers e p"
    using m merge_eras_Inr_iff[of actualTiers expectedTiers "[]"] by blast
  have "(\<exists>ds. (e, ds) \<in> set expectedTiers \<and> d \<in> fst ` set ds) \<Longrightarrow>
        (\<exists>m a. map_of actualTiers e = Some m \<and> map_of m d = Some a)"
  proof -
    assume "\<exists>ds. (e, ds) \<in> set expectedTiers \<and> d \<in> fst ` set ds"
    then obtain ds x where "(e, ds) \<in> set expectedTiers" "(d, x) \<in> set ds" by auto
    with ok have "pair_ok actualTiers e (d, x)" by blast
    then show ?thesis
      by (auto simp: pair_ok_def actual_of_def split: option.splits)
  qed
  with keys show "(\<exists>r\<in>set rows. row_era r = e \<and> dapp_id r = d) =
                    ((\<exists>ds. (e, ds) \<in> set expectedTiers \<and> d \<in> fst ` set ds) \<and>
                     (\<exists>m a. map_of actualTiers e = Some m \<and> map_of m d = Some a))"
    by blast
qed

theorem rows_follow_expected_witness:
  "aggregate fx_expected fx_actual = (fx_writes, Inr (fx_rows, [(''A'', 50), (''C'', 30)], 0)) \<and>
   (\<exists>r\<in>set fx_rows. row_era r = 1 \<and> dapp_id r = 2) \<and>
   \<not> (\<exists>r\<in>set fx_rows. row_era r = 2 \<and> dapp_id r = 2)"
proof -
  note t = rows_follow_expected[OF fx_aggregate]
  from t have a: "(\<exists>r\<in>set fx_rows. row_era r = 1 \<and> dapp_id r = 2) =
     ((\<exists>ds. (1, ds) \<in> set fx_expected \<and> 2 \<in> fst ` set ds) \<and>
      (\<exists>m a. map_of fx_actual 1 = Some m \<and> map_of m 2 = Some a))"
    by blast
  from t have b: "(\<exists>r\<in>set fx_rows. row_era r = 2 \<and> dapp_id r = 2) =
     ((\<exists>ds. (2, ds) \<in> set fx_expected \<and> 2 \<in> fst ` set ds) \<and>
      (\<exists>m a. map_of fx_actual 2 = Some m \<and> map_of m 2 = Some a))"
    by blast
  have "\<exists>r\<in>set fx_rows. row_era r = 1 \<and> dapp_id r = 2"
    unfolding a by (simp add: fx_expected_def fx_actual_def)
  moreover have "\<not> (\<exists>r\<in>set fx_rows. row_era r = 2 \<and> dapp_id r = 2)"
    unfolding b by (simp add: fx_expected_def fx_actual_def)
  ultimately show ?thesis using fx_aggregate by blast
qed

text \<open>
  Against \<^bold>\<open>C2\<close> as stated: recipient 9 of era 1 is in the actual set only, and the run
  completes with the same rows and ledger as without it; no lookup error is raised.
\<close>

theorem actual_only_recipient_counterexample:
  "(case map_of fx_actual_extra 1 of None \<Rightarrow> False | Some m \<Rightarrow> map_of m 9 \<noteq> None) \<and>
   (case map_of fx_expected 1 of None \<Rightarrow> False | Some m \<Rightarrow> map_of m 9 = None) \<and>
   aggregate fx_expected fx_actual_extra =
     (fx_writes, Inr (fx_rows, [(''A'', 50), (''C'', 30)], 0))"
proof -
  have "case map_of fx_actual_extra 1 of None \<Rightarrow> False | Some m \<Rightarrow> map_of m 9 \<noteq> None"
    by (simp add: fx_actual_extra_def)
  moreover have "case map_of fx_expected 1 of None \<Rightarrow> False | Some m \<Rightarrow> map_of m 9 = None"
    by (simp add: fx_expected_def)
  ultimately show ?thesis using fx_aggregate_extra by blast
qed

text \<open>
  \<^bold>\<open>C3.\<close> The ledger maps a beneficiary with at least one row of non-zero delta to the
  sum of the deltas of all its rows, and has no entry for any other beneficiary. The
  ledger is computed from the very rows that are written to the two row files, so rows of
  delta zero stay in the detailed output.
\<close>

theorem ledger_sums_deltas:
  "map_of (reimburse rows) b =
     (if \<exists>x\<in>set rows. row_beneficiary x = b \<and> delta x \<noteq> 0
      then Some (sum_list (map delta (filter (\<lambda>x. row_beneficiary x = b) rows)))
      else None) \<and>
   (aggregate expectedTiers actualTiers = (ws, Inr (rows, ledger, t)) \<longrightarrow>
      ledger = reimburse rows \<and>
      ws = [WriteRows ''./raw-result.json'' rows, WriteRows ''./raw-result.csv'' rows,
            WriteLedger ''./reimburse.json'' ledger, WriteLedger ''./reimburse.csv'' ledger])"
proof (intro conjI impI)
  have "(\<exists>x\<in>set (filter (\<lambda>x. delta x \<noteq> 0) rows). row_beneficiary x = b) =
        (\<exists>x\<in>set rows. row_beneficiary x = b \<and> delta x \<noteq> 0)"
    by auto
  then show "map_of (reimburse rows) b =
     (if \<exists>x\<in>set rows. row_beneficiary x = b \<and> delta x \<noteq> 0
      then Some (sum_list (map delta (filter (\<lambda>x. row_beneficiary x = b) rows)))
      else None)"
    unfolding reimburse_def map_of_foldl_reimburse sum_delta_nonzero by simp
next
  assume a: "aggregate expectedTiers actualTiers = (ws, Inr (rows, ledger, t))"
  then show "ledger = reimburse rows"
    by (auto simp: aggregate_def Let_def split: sum.splits)
  from a show "ws = [WriteRows ''./raw-result.json'' rows, WriteRows ''./raw-result.csv'' rows,
            WriteLedger ''./reimburse.json'' ledger, WriteLedger ''./reimburse.csv'' ledger]"
    by (auto simp: aggregate_def Let_def split: sum.splits)
qed

theorem ledger_sums_deltas_witness:
  "aggregate fx_expected fx_actual = (fx_writes, Inr (fx_rows, [(''A'', 50), (''C'', 30)], 0)) \<and>
   map_of (reimburse fx_rows) ''A'' = Some 50 \<and>
   map_of (reimburse fx_rows) ''B'' = None \<and>
   [(''A'', 50), (''C'', 30)] = reimburse fx_rows"
proof -
  note a = ledger_sums_deltas[of fx_rows "''A''" fx_expected fx_actual fx_writes
      "[(''A'', 50), (''C'', 30)]" 0]
  note b = ledger_sums_deltas[of fx_rows "''B''" fx_expected fx_actual fx_writes
      "[(''A'', 50), (''C'', 30)]" 0]
  from a have "map_of (reimburse fx_rows) ''A'' = Some 50"
    by (simp add: fx_rows_def)
  moreover from b have "map_of (reimburse fx_rows) ''B'' = None"
    by (simp add: fx_rows_def)
  moreover from a fx_aggregate have "[(''A'', 50), (''C'', 30)] = reimburse fx_rows"
    by blast
  ultimately show ?thesis using fx_aggregate by blast
qed



text \<open>
  \<^bold>\<open>C5\<close> (as the code has it). The loop has no guard of its own. It returns, with a result
  or with an error, whenever every protocol state read at a block reports a next era
  start beyond that block, which is how the chain progresses. It never returns exactly
  when every pass it makes succeeds and reads back a next era start below the end block.
  That is the case as soon as one pass reads back the boundary it started from, below the
  end block, and the pass that follows succeeds: from there on every pass is the same.
\<close>

theorem scan_returns_or_loops:
  "((\<forall>b st. activeProtocolState api b = Inr st \<longrightarrow> b < nextEraStart st) \<longrightarrow>
      (\<exists>r. scan_loop h api endBlock ps blocks actualTiers = Some r)) \<and>
   ((scan_loop h api endBlock ps blocks actualTiers = None) =
      (\<forall>n. scan_state n h api endBlock ps blocks actualTiers \<noteq> None)) \<and>
   (scan_body h api ps blocks actualTiers = Inr (ps', blocks', actualTiers') \<and>
    nextEraStart ps' = nextEraStart ps \<and> nextEraStart ps' < endBlock \<and>
    (\<exists>r. scan_body h api ps' blocks' actualTiers' = Inr r) \<longrightarrow>
      scan_loop h api endBlock ps blocks actualTiers = None)"
proof (intro conjI impI)
  assume "\<forall>b st. activeProtocolState api b = Inr st \<longrightarrow> b < nextEraStart st"
  then show "\<exists>r. scan_loop h api endBlock ps blocks actualTiers = Some r"
    by (rule scan_loop_advancing)
next
  show "(scan_loop h api endBlock ps blocks actualTiers = None) =
      (\<forall>n. scan_state n h api endBlock ps blocks actualTiers \<noteq> None)"
    by (rule scan_loop_None_iff)
next
  assume "scan_body h api ps blocks actualTiers = Inr (ps', blocks', actualTiers') \<and>
    nextEraStart ps' = nextEraStart ps \<and> nextEraStart ps' < endBlock \<and>
    (\<exists>r. scan_body h api ps' blocks' actualTiers' = Inr r)"
  then show "scan_loop h api endBlock ps blocks actualTiers = None"
    using scan_loop_repeated_boundary by blast
qed

theorem scan_returns_or_loops_witness:
  "(\<forall>b. \<exists>st. activeProtocolState fx_api b = Inr st \<and> b < nextEraStart st) \<and>
   (\<exists>r. scan_loop fx_hexToBigInt fx_api 35 \<lparr>nextEraStart = 10, era = 1\<rparr> [] [] = Some r) \<and>
   scan_body fx_hexToBigInt fx_stuck5_api \<lparr>nextEraStart = 5, era = 1\<rparr> [] [] =
     Inr (\<lparr>nextEraStart = 5, era = 1\<rparr>, [(1, 5)], [(1, [])]) \<and>
   scan_loop fx_hexToBigInt fx_stuck5_api 10 \<lparr>nextEraStart = 5, era = 1\<rparr> [] [] = None \<and>
   (\<forall>n. scan_state n fx_hexToBigInt fx_stuck5_api 10 \<lparr>nextEraStart = 5, era = 1\<rparr> [] [] \<noteq> None) \<and>
   activeProtocolState fx_stuck5_api 6 = Inl Rejected"
proof -
  let ?ps = "\<lparr>nextEraStart = 5, era = 1\<rparr>"
  have adv: "b < 10 * (b div 10 + 1)" for b :: nat by arith
  have h: "\<forall>b st. activeProtocolState fx_api b = Inr st \<longrightarrow> b < nextEraStart st"
    using adv by (auto simp: fx_api_state)
  have h': "\<forall>b. \<exists>st. activeProtocolState fx_api b = Inr st \<and> b < nextEraStart st"
    using adv by (simp add: fx_api_state)
  note t1 = scan_returns_or_loops[of fx_api fx_hexToBigInt 35
      "\<lparr>nextEraStart = 10, era = 1\<rparr>" "[]" "[]", THEN conjunct1, THEN mp, OF h]
  have b1: "scan_body fx_hexToBigInt fx_stuck5_api ?ps [] [] = Inr (?ps, [(1, 5)], [(1, [])])"
    using fx_stuck5_body[of "[]" "[]"] by simp
  have b2: "\<exists>r. scan_body fx_hexToBigInt fx_stuck5_api ?ps [(1, 5)] [(1, [])] = Inr r"
    using fx_stuck5_body[of "[(1, 5)]" "[(1, [])]"] by blast
  have c: "scan_body fx_hexToBigInt fx_stuck5_api ?ps [] [] = Inr (?ps, [(1, 5)], [(1, [])]) \<and>
    nextEraStart ?ps = nextEraStart ?ps \<and> nextEraStart ?ps < 10 \<and>
    (\<exists>r. scan_body fx_hexToBigInt fx_stuck5_api ?ps [(1, 5)] [(1, [])] = Inr r)"
    using b1 b2 by simp
  note t = scan_returns_or_loops[of fx_stuck5_api fx_hexToBigInt 10 ?ps "[]" "[]"
      ?ps "[(1, 5)]" "[(1, [])]"]
  note t3 = t[THEN conjunct2, THEN conjunct2, THEN mp, OF c]
  note t2 = t[THEN conjunct2, THEN conjunct1]
  from t2 t3 have s: "\<forall>n. scan_state n fx_hexToBigInt fx_stuck5_api 10 ?ps [] [] \<noteq> None"
    by simp
  have r: "activeProtocolState fx_stuck5_api 6 = Inl Rejected"
    by (simp add: fx_stuck5_api_def)
  from h' t1 b1 t3 s r show ?thesis by blast
qed

text \<open>
  Against \<^bold>\<open>C5\<close> as stated: on a chain that reports the same boundary, block 5, at every
  block, the scan with the end block 10 neither returns a result nor raises an error.
\<close>

theorem scan_never_returns_counterexample:
  "scan fx_hexToBigInt fx_stuck_api 0 10 = None"
proof -
  have s: "\<forall>ps blocks actualTiers. \<exists>ps' blocks' actualTiers'.
        scan_body fx_hexToBigInt fx_stuck_api ps blocks actualTiers =
          Inr (ps', blocks', actualTiers') \<and> nextEraStart ps' < 10"
    by (simp add: fx_stuck_body)
  have "activeProtocolState fx_stuck_api 0 = Inr \<lparr>nextEraStart = 5, era = 1\<rparr>"
    by (simp add: fx_stuck_api_def)
  then show ?thesis
    by (simp add: scan_def scan_loop_stuck[OF s])
qed

text \<open>
  \<^bold>\<open>C6\<close> (as the code has it). A replay that succeeds has one iteration per era boundary;
  each starts by acquiring its fork, ends with its teardown and tears down once, and over
  the whole log no fork is acquired while another is held. A replay that fails stops in
  the failing iteration: the earlier iterations are complete, the last one has no
  teardown, and its fork, if it was acquired, is still held at the end.
\<close>

theorem replay_fork_teardown:
  assumes "replay cs h rt blocks = (trace, res)"
  shows "(\<forall>ex. res = Inr ex \<longrightarrow>
            map hd trace = map (\<lambda>(e, block). SetupContext (int block - 1)) blocks \<and>
            (\<forall>ops\<in>set trace. count_list ops Teardown = 1 \<and> last ops = Teardown) \<and>
            fork_held False (concat trace) = Some False) \<and>
         (\<forall>err. res = Inl err \<longrightarrow>
            trace \<noteq> [] \<and> Teardown \<notin> set (last trace) \<and>
            (\<forall>ops\<in>set (butlast trace). count_list ops Teardown = 1 \<and> last ops = Teardown) \<and>
            fork_held False (concat trace) = Some (last trace \<noteq> []))"
  using replay_loop_forks[OF assms[unfolded replay_def]] .

theorem replay_fork_teardown_witness:
  "replay fx_cs fx_hexToBigInt (Hex ''c0de'') fx_blocks = (fx_trace, Inr fx_expected) \<and>
   fork_held False (concat fx_trace) = Some False \<and>
   replay fx_silent_cs fx_hexToBigInt (Hex ''c0de'') fx_blocks =
     ([[SetupContext 9, SetWasm (Hex ''c0de''), NewBlock]], Inl MissingNewEraEvent) \<and>
   fork_held False (concat [[SetupContext 9, SetWasm (Hex ''c0de''), NewBlock]]) = Some True"
  using replay_fork_teardown[OF fx_replay] replay_fork_teardown[OF fx_replay_silent]
    fx_replay fx_replay_silent
  by simp

text \<open>
  Against \<^bold>\<open>C6\<close> as stated: the fork of the first iteration produces a block without the
  \<open>NewEra\<close> event, the event check throws, and the fork that was set up at block 9 is
  never torn down.
\<close>

theorem teardown_on_failure_counterexample:
  "replay fx_silent_cs fx_hexToBigInt (Hex ''c0de'') fx_blocks =
     ([[SetupContext 9, SetWasm (Hex ''c0de''), NewBlock]], Inl MissingNewEraEvent) \<and>
   count_list (concat (fst (replay fx_silent_cs fx_hexToBigInt (Hex ''c0de'') fx_blocks)))
     Teardown = 0"
  by (simp add: fx_replay_silent)

text \<open>
  \<^bold>\<open>C7.\<close> \<open>ensureHasEvent\<close> returns normally if and only if some event of the list has the
  section \<open>dappStaking\<close> and the method \<open>NewEra\<close>; otherwise it throws the missing-event
  error. That error ends the scan at once, and it ends the replay in the iteration
  where it is thrown, with no later iteration.
\<close>

theorem ensureHasEvent_NewEra:
  "(ensureHasEvent events = Inr ()) =
     (\<exists>ev\<in>set events. ev_section ev = ''dappStaking'' \<and> ev_method ev = ''NewEra'') \<and>
   (ensureHasEvent events = Inr () \<or> ensureHasEvent events = Inl MissingNewEraEvent) \<and>
   (system_events api (nextEraStart ps) = Inr events \<and> ensureHasEvent events \<noteq> Inr () \<longrightarrow>
      scan_loop h api endBlock ps blocks actualTiers = Some (Inl MissingNewEraEvent)) \<and>
   (setupContext cs (int block - 1) = Inr ctx0 \<and>
    override_step cs (setWasm cs ctx0 rt) tc = (ops2, Inr ctx2) \<and>
    newBlock cs ctx2 = Inr ctx3 \<and> ctx_events cs ctx3 = Inr events \<and>
    ensureHasEvent events \<noteq> Inr () \<longrightarrow>
      replay_loop cs h rt tc ((e, block) # rest) expected =
        ([[SetupContext (int block - 1), SetWasm rt] @ ops2 @ [NewBlock]],
         Inl MissingNewEraEvent))"
proof (intro conjI impI)
  show "(ensureHasEvent events = Inr ()) =
     (\<exists>ev\<in>set events. ev_section ev = ''dappStaking'' \<and> ev_method ev = ''NewEra'')"
    by (simp add: ensureHasEvent_cases)
  show "ensureHasEvent events = Inr () \<or> ensureHasEvent events = Inl MissingNewEraEvent"
    using ensureHasEvent_not_ok[of events] by blast
next
  assume "system_events api (nextEraStart ps) = Inr events \<and> ensureHasEvent events \<noteq> Inr ()"
  then have "scan_body h api ps blocks actualTiers = Inl MissingNewEraEvent"
    by (simp add: scan_body_missing_event)
  then show "scan_loop h api endBlock ps blocks actualTiers = Some (Inl MissingNewEraEvent)"
    by (subst scan_loop.simps) simp
next
  assume a: "setupContext cs (int block - 1) = Inr ctx0 \<and>
    override_step cs (setWasm cs ctx0 rt) tc = (ops2, Inr ctx2) \<and>
    newBlock cs ctx2 = Inr ctx3 \<and> ctx_events cs ctx3 = Inr events \<and>
    ensureHasEvent events \<noteq> Inr ()"
  then have "read_fork cs h e ctx3 = ([], Inl MissingNewEraEvent)"
    by (simp add: read_fork_missing_event)
  with a have "replay_iter cs h rt tc e block =
      ([SetupContext (int block - 1), SetWasm rt] @ ops2 @ [NewBlock], Inl MissingNewEraEvent)"
    by (simp add: replay_iter_def Let_def)
  then show "replay_loop cs h rt tc ((e, block) # rest) expected =
        ([[SetupContext (int block - 1), SetWasm rt] @ ops2 @ [NewBlock]],
         Inl MissingNewEraEvent)"
    by simp
qed

theorem ensureHasEvent_NewEra_witness:
  "ensureHasEvent [fx_other, fx_newEra] = Inr () \<and>
   ensureHasEvent [fx_other] = Inl MissingNewEraEvent \<and>
   scan_loop fx_hexToBigInt fx_quiet_api 35 \<lparr>nextEraStart = 10, era = 1\<rparr> [] [] =
     Some (Inl MissingNewEraEvent) \<and>
   replay_loop fx_silent_cs fx_hexToBigInt (Hex ''c0de'') None [(1, 10), (2, 20), (3, 30)] [] =
     ([[SetupContext 9, SetWasm (Hex ''c0de''), NewBlock]], Inl MissingNewEraEvent)"
proof -
  note t1 = ensureHasEvent_NewEra[where events = "[fx_other, fx_newEra]"]
  note t2 = ensureHasEvent_NewEra[where events = "[fx_other]" and api = fx_quiet_api
      and ps = "\<lparr>nextEraStart = 10, era = 1\<rparr>" and h = fx_hexToBigInt and endBlock = 35
      and blocks = "[]" and actualTiers = "[]" and cs = fx_silent_cs and block = 10
      and ?ctx0.0 = "(9, None)" and rt = "Hex ''c0de''" and tc = None and ?ops2.0 = "[]"
      and ?ctx2.0 = "(9, None)" and ?ctx3.0 = "(10, None)" and e = 1
      and rest = "[(2, 20), (3, 30)]" and expected = "[]"]
  have ok: "\<exists>ev\<in>set [fx_other, fx_newEra]. ev_section ev = ''dappStaking'' \<and> ev_method ev = ''NewEra''"
    by (simp add: fx_newEra_def)
  have no: "\<not> (\<exists>ev\<in>set [fx_other]. ev_section ev = ''dappStaking'' \<and> ev_method ev = ''NewEra'')"
    by (simp add: fx_other_def)
  from t1[THEN conjunct1] ok have a: "ensureHasEvent [fx_other, fx_newEra] = Inr ()"
    by simp
  from t2[THEN conjunct1] no have b: "ensureHasEvent [fx_other] \<noteq> Inr ()"
    by simp
  with t2 have c: "ensureHasEvent [fx_other] = Inl MissingNewEraEvent" by blast
  have h1: "system_events fx_quiet_api (nextEraStart \<lparr>nextEraStart = 10, era = 1\<rparr>) = Inr [fx_other]"
    by (simp add: fx_quiet_api_def fx_api_def)
  have h2: "setupContext fx_silent_cs (int 10 - 1) = Inr (9, None)"
    by (simp add: fx_silent_cs_sel)
  have h3: "override_step fx_silent_cs (setWasm fx_silent_cs (9, None) (Hex ''c0de'')) None =
              ([], Inr (9, None))"
    by (simp add: override_step_def fx_silent_cs_sel)
  have h4: "newBlock fx_silent_cs (9, None) = Inr (10, None)"
    by (simp add: fx_silent_cs_sel)
  have h5: "ctx_events fx_silent_cs (10, None) = Inr [fx_other]"
    by (simp add: fx_silent_cs_def fx_cs_def)
  from t2 b h1 have d: "scan_loop fx_hexToBigInt fx_quiet_api 35 \<lparr>nextEraStart = 10, era = 1\<rparr> [] [] =
     Some (Inl MissingNewEraEvent)" by blast
  from t2 b h2 h3 h4 h5 have "replay_loop fx_silent_cs fx_hexToBigInt (Hex ''c0de'') None
        ((1, 10) # [(2, 20), (3, 30)]) [] =
     ([[SetupContext (int 10 - 1), SetWasm (Hex ''c0de'')] @ [] @ [NewBlock]], Inl MissingNewEraEvent)"
    by blast
  then have e: "replay_loop fx_silent_cs fx_hexToBigInt (Hex ''c0de'') None
        [(1, 10), (2, 20), (3, 30)] [] =
     ([[SetupContext 9, SetWasm (Hex ''c0de''), NewBlock]], Inl MissingNewEraEvent)"
    by simp
  from a c d e show ?thesis by blast
qed

text \<open>
  \<^bold>\<open>C8.\<close> When the extraction succeeds it has one record per recipient of the tier table,
  and the beneficiary of a record is the \<open>rewardBeneficiary\<close> of the recipient's directory
  entry when that is a non-empty string, and the \<open>owner\<close> when it is \<open>null\<close> (or the empty
  string, which \<open>||\<close> treats like \<open>null\<close>). A recipient of the tier table without a
  directory entry makes the extraction fail: with "dapp should exists", unless
  \<open>hexToBigInt\<close> has thrown before. Scan and replay run the same extraction.
\<close>

theorem extractRewards_beneficiary:
  "(extractRewards h tiers integrated = Inr m \<longrightarrow>
      fst ` set m = fst ` set (dapps tiers) \<and>
      (\<forall>(d, r)\<in>set m. \<exists>dapp. find (\<lambda>x. dapp_num x = d) integrated = Some dapp \<and>
         (case rewardBeneficiary dapp of
            None \<Rightarrow> beneficiary r = owner dapp
          | Some b \<Rightarrow> if b = [] then beneficiary r = owner dapp else beneficiary r = b))) \<and>
   ((\<exists>d\<in>fst ` set (dapps tiers). d \<notin> dapp_num ` set integrated) \<longrightarrow>
      (\<exists>err. extractRewards h tiers integrated = Inl err \<and>
         (err = DappShouldExist \<or> (\<exists>x. h x = Inl err))))"
proof (intro conjI impI)
  assume ok: "extractRewards h tiers integrated = Inr m"
  then show "fst ` set m = fst ` set (dapps tiers)"
    using dappsReward_loop_keys[of h "rewards tiers" integrated "dapps tiers" "[]" m]
    by (simp add: extractRewards_def)
  have "\<forall>(d, r)\<in>set m. \<exists>dapp. find (\<lambda>x. dapp_num x = d) integrated = Some dapp \<and>
            beneficiary r = beneficiary_of dapp"
    using ok dappsReward_loop_inv[of h "rewards tiers" integrated "dapps tiers" "[]" m]
    by (simp add: extractRewards_def)
  then show "\<forall>(d, r)\<in>set m. \<exists>dapp. find (\<lambda>x. dapp_num x = d) integrated = Some dapp \<and>
         (case rewardBeneficiary dapp of
            None \<Rightarrow> beneficiary r = owner dapp
          | Some b \<Rightarrow> if b = [] then beneficiary r = owner dapp else beneficiary r = b)"
    by (fastforce simp: beneficiary_of_def js_truthy_def split: option.splits)
next
  assume "\<exists>d\<in>fst ` set (dapps tiers). d \<notin> dapp_num ` set integrated"
  then obtain d t where dt: "(d, t) \<in> set (dapps tiers)" and nd: "d \<notin> dapp_num ` set integrated"
    by auto
  from nd have "find (\<lambda>x. dapp_num x = d) integrated = None"
    by (auto simp: find_None_iff)
  from dappsReward_loop_missing[OF dt this, of h "rewards tiers" "[]"]
  obtain err where e: "extractRewards h tiers integrated = Inl err"
    by (auto simp: extractRewards_def)
  with dappsReward_loop_error[of h "rewards tiers" integrated "dapps tiers" "[]" err]
  show "\<exists>err. extractRewards h tiers integrated = Inl err \<and>
         (err = DappShouldExist \<or> (\<exists>x. h x = Inl err))"
    by (auto simp: extractRewards_def)
qed

theorem extractRewards_beneficiary_witness:
  "extractRewards fx_hexToBigInt (fx_tiers 100 50 10 1) fx_integrated =
     Inr [(1, \<lparr>reward = 100, tierId = 0, beneficiary = ''A''\<rparr>),
          (2, \<lparr>reward = 200, tierId = 1, beneficiary = ''B''\<rparr>)] \<and>
   extractRewards fx_hexToBigInt \<lparr>dapps = [(7, 0)], rewards = [1]\<rparr> fx_integrated =
     Inl DappShouldExist"
proof -
  have a: "extractRewards fx_hexToBigInt (fx_tiers 100 50 10 1) fx_integrated =
     Inr [(1, \<lparr>reward = 100, tierId = 0, beneficiary = ''A''\<rparr>),
          (2, \<lparr>reward = 200, tierId = 1, beneficiary = ''B''\<rparr>)]"
    by (simp add: fx_extract)
  have m: "\<exists>d\<in>fst ` set (dapps \<lparr>dapps = [(7, 0)], rewards = [1::int]\<rparr>).
             d \<notin> dapp_num ` set fx_integrated"
    by (simp add: fx_integrated_def)
  from extractRewards_beneficiary[of fx_hexToBigInt "\<lparr>dapps = [(7, 0)], rewards = [1]\<rparr>"
      fx_integrated "[]"] m fx_hex_ok
  have "extractRewards fx_hexToBigInt \<lparr>dapps = [(7, 0)], rewards = [1]\<rparr> fx_integrated =
     Inl DappShouldExist"
    by blast
  with a show ?thesis by blast
qed



text \<open>
  \<^bold>\<open>C10\<close> (as the code has it). When the aggregation succeeds, every amount of the
  ledger is strictly positive, and so is the sum of the amounts of a non-empty ledger.
  The total the script computes and prints (lines 231--236) is that sum divided by
  \<open>10^18\<close>, rounded down: it is strictly positive if and only if the sum reaches \<open>10^18\<close>.
\<close>

theorem ledger_amounts_positive:
  assumes "aggregate expectedTiers actualTiers = (ws, Inr (rows, ledger, t))"
  shows "(\<forall>(b, amount)\<in>set ledger. 0 < amount) \<and>
         (ledger \<noteq> [] \<longrightarrow> 0 < ledger_sum ledger) \<and>
         t = ledger_sum ledger div 10 ^ 18 \<and>
         (0 < t) = (10 ^ 18 \<le> ledger_sum ledger)"
proof -
  from assms have m: "merge_eras actualTiers expectedTiers [] = Inr rows"
    and l: "ledger = reimburse rows" and t: "t = total_astr ledger"
    by (auto simp: aggregate_def Let_def split: sum.splits)
  have "\<forall>r\<in>set rows. 0 \<le> delta r"
    using merge_eras_delta[OF m] by simp
  then have "\<forall>x\<in>set (filter (\<lambda>x. delta x \<noteq> 0) rows). 0 < delta x"
    by auto
  then have pos: "\<forall>(b, amount)\<in>set ledger. 0 < amount"
    unfolding l reimburse_def by (intro foldl_reimburse_pos) auto
  have s: "ledger_sum ledger = sum_list (map snd ledger)"
    by (simp add: ledger_sum_def foldl_plus_sum_list)
  have sp: "ledger \<noteq> [] \<Longrightarrow> 0 < ledger_sum ledger"
    unfolding s using pos by (intro sum_list_pos_int) auto
  have nn: "0 \<le> ledger_sum ledger"
    using sp by (cases ledger) (auto simp: ledger_sum_def)
  have k: "(0::int) < 10 ^ 18" by simp
  have td: "t = ledger_sum ledger div 10 ^ 18"
  proof (cases "ledger_sum ledger = 0")
    case True
    then show ?thesis by (simp add: t total_astr_def bigint_div_def)
  next
    case False
    with nn have "0 < ledger_sum ledger" by simp
    then show ?thesis by (simp add: t total_astr_def bigint_div_def)
  qed
  have "(0 < t) = (10 ^ 18 \<le> ledger_sum ledger)"
    unfolding td using k by (rule pos_imp_zdiv_pos_iff)
  with pos sp td show ?thesis by blast
qed

theorem ledger_amounts_positive_witness:
  "aggregate fx_expected fx_actual = (fx_writes, Inr (fx_rows, [(''A'', 50), (''C'', 30)], 0)) \<and>
   0 < ledger_sum [(''A'', 50), (''C'', 30)] \<and>
   ledger_sum [(''A'', 50), (''C'', 30)] = 80 \<and>
   (0::int) = ledger_sum [(''A'', 50), (''C'', 30)] div 10 ^ 18"
proof -
  note t = ledger_amounts_positive[OF fx_aggregate]
  from t have "0 < ledger_sum [(''A'', 50), (''C'', 30)]" by simp
  moreover from t have "(0::int) = ledger_sum [(''A'', 50), (''C'', 30)] div 10 ^ 18"
    by blast
  moreover have "ledger_sum [(''A'', 50), (''C'', 30)] = 80" by (simp add: ledger_sum_def)
  ultimately show ?thesis using fx_aggregate by blast
qed

text \<open>
  Against \<^bold>\<open>C10\<close> as stated: the scenario ends with the non-empty ledger of 50 and 30
  base units, and the total the script computes and prints for it is 0.
\<close>

theorem reported_total_zero_counterexample:
  "aggregate fx_expected fx_actual = (fx_writes, Inr (fx_rows, [(''A'', 50), (''C'', 30)], 0)) \<and>
   [(''A'', 50 :: int), (''C'', 30)] \<noteq> [] \<and>
   \<not> 0 < total_astr [(''A'', 50), (''C'', 30)]"
  by (simp add: fx_aggregate fx_total)

end
